theory Spec2Isabelle
  imports Complex_Main "HOL-Library.AList" "HOL-Library.Multiset"
begin

text \<open>
  A shallow embedding of the research agent's job pipeline: the Redis-backed task queue
  (task\_queue.py), the state manager (state.py), the action policy (policy.py), the search
  and analyze tools (tools.py), the orchestrator (engine.py) and the status routine of the
  task model (models.py). Each coroutine is a
  function on the state it reads and writes: the Redis server's key space, a tool's own
  state, the clock readings and fresh identifiers it is given. The definitions come
  first, module by module; the properties follow.
\<close>

section \<open>Python values\<close>

text \<open>
  An exception is its class name and the text \<open>str(e)\<close> gives for it. A raise is the
  \<open>Inl\<close> branch of a sum, a normal return the \<open>Inr\<close> branch. The exceptions modelled
  are instances of \<open>Exception\<close>, which is what the program's \<open>except Exception\<close>
  clauses catch.
\<close>

datatype py_exception = PyExc (exc_class: string) (exc_str: string)

text \<open>
  JSON documents, as \<open>json.loads\<close> builds them: \<open>None\<close>, booleans, integers, floats
  (carried as rationals: the only floats the program computes are \<open>len / 1000\<close> capped at
  \<open>1.0\<close>, which compare as the rationals do), strings, lists, and dicts with string keys
  (association lists in insertion order, each key once).
\<close>

datatype json =
    JNull
  | JBool bool
  | JInt int
  | JNum rat
  | JStr string
  | JArr "json list"
  | JObj "(string \<times> json) list"

text \<open>\<open>d[k]\<close> for a string key: KeyError on a dict without the key, TypeError on a
  value that is not a dict.\<close>

definition py_repr :: "string \<Rightarrow> string" where
  "py_repr k = CHR 0x27 # k @ [CHR 0x27]"

fun py_getitem :: "json \<Rightarrow> string \<Rightarrow> py_exception + json" where
  "py_getitem (JObj kvs) k =
     (case map_of kvs k of
        None \<Rightarrow> Inl (PyExc ''KeyError'' (py_repr k))
      | Some v \<Rightarrow> Inr v)"
| "py_getitem v k =
     Inl (PyExc ''TypeError'' ''indices must be integers or object is not subscriptable'')"

section \<open>The Redis server\<close>

text \<open>
  A key holds a string, a list or a hash. The strings this program writes under a key or
  pushes on a list are always \<open>json.dumps\<close> of a document, and are read back with
  \<open>json.loads\<close>; the model stores the document itself (\<open>json.loads (json.dumps d) = d\<close>
  for the documents built here: string keys, JSON values). The elements of the task list
  are the JSON texts of task descriptors, carried as \<open>task_data\<close> records. A hash field
  holds plain text (a status, a timestamp, an error message), the JSON text of a handler's
  result, or the JSON text of a task descriptor.
  A command sent to a key of the wrong kind is answered with WRONGTYPE, which the client
  raises as \<open>ResponseError\<close>.
\<close>

record task_data =
  task_id :: string
  task_type :: string
  payload :: json
  created_at :: string

datatype hval = HText string | HJson json | HTask task_data

datatype rvalue =
    RString json
  | RList "task_data list"
  | RHash "string \<rightharpoonup> hval"

type_synonym redis = "string \<rightharpoonup> rvalue"

definition WRONGTYPE :: py_exception where
  "WRONGTYPE = PyExc ''ResponseError''
     ''WRONGTYPE Operation against a key holding the wrong kind of value''"

definition redis_get :: "redis \<Rightarrow> string \<Rightarrow> py_exception + json option" where
  "redis_get r k =
     (case r k of
        None \<Rightarrow> Inr None
      | Some (RString d) \<Rightarrow> Inr (Some d)
      | Some (RList xs) \<Rightarrow> Inl WRONGTYPE
      | Some (RHash h) \<Rightarrow> Inl WRONGTYPE)"

definition redis_set :: "redis \<Rightarrow> string \<Rightarrow> json \<Rightarrow> redis" where
  "redis_set r k d = r(k \<mapsto> RString d)"

definition redis_lpush :: "redis \<Rightarrow> string \<Rightarrow> task_data \<Rightarrow> py_exception + redis" where
  "redis_lpush r k x =
     (case r k of
        None \<Rightarrow> Inr (r(k \<mapsto> RList [x]))
      | Some (RList xs) \<Rightarrow> Inr (r(k \<mapsto> RList (x # xs)))
      | Some (RString d) \<Rightarrow> Inl WRONGTYPE
      | Some (RHash h) \<Rightarrow> Inl WRONGTYPE)"

text \<open>\<open>BLPOP key timeout\<close>: the head of the list, or nothing once the timeout has
  passed on an empty or missing list. Redis deletes a list that becomes empty.\<close>

definition redis_blpop ::
  "redis \<Rightarrow> string \<Rightarrow> py_exception + ((string \<times> task_data) option \<times> redis)" where
  "redis_blpop r k =
     (case r k of
        None \<Rightarrow> Inr (None, r)
      | Some (RList []) \<Rightarrow> Inr (None, r)
      | Some (RList (x # xs)) \<Rightarrow>
          Inr (Some (k, x), if xs = [] then r(k := None) else r(k \<mapsto> RList xs))
      | Some (RString d) \<Rightarrow> Inl WRONGTYPE
      | Some (RHash h) \<Rightarrow> Inl WRONGTYPE)"

definition redis_hset :: "redis \<Rightarrow> string \<Rightarrow> (string \<rightharpoonup> hval) \<Rightarrow> py_exception + redis" where
  "redis_hset r k m =
     (case r k of
        None \<Rightarrow> Inr (r(k \<mapsto> RHash m))
      | Some (RHash h) \<Rightarrow> Inr (r(k \<mapsto> RHash (h ++ m)))
      | Some (RString d) \<Rightarrow> Inl WRONGTYPE
      | Some (RList xs) \<Rightarrow> Inl WRONGTYPE)"

definition redis_hgetall :: "redis \<Rightarrow> string \<Rightarrow> py_exception + (string \<rightharpoonup> hval)" where
  "redis_hgetall r k =
     (case r k of
        None \<Rightarrow> Inr Map.empty
      | Some (RHash h) \<Rightarrow> Inr h
      | Some (RString d) \<Rightarrow> Inl WRONGTYPE
      | Some (RList xs) \<Rightarrow> Inl WRONGTYPE)"

text \<open>Reading one field of the hash at a key, for stating what a write left behind.\<close>

definition hash_field :: "redis \<Rightarrow> string \<Rightarrow> string \<Rightarrow> hval option" where
  "hash_field r k f = (case r k of Some (RHash h) \<Rightarrow> h f | _ \<Rightarrow> None)"

definition queue_contents :: "redis \<Rightarrow> task_data list" where
  "queue_contents r = (case r ''task_queue'' of Some (RList xs) \<Rightarrow> xs | _ \<Rightarrow> [])"

section \<open>task\_queue.py: MessageQueue\<close>

definition task_key :: "string \<Rightarrow> string" where
  "task_key tid = ''task:'' @ tid"

text \<open>
  \<open>enqueue_task\<close> (lines 23 to 41). The fresh \<open>uuid4\<close> string and the clock reading
  are inputs; the payload is a JSON document. The method awaits two commands in this
  order: LPUSH of the descriptor on \<open>task_queue\<close>, then HSET of the status hash under
  \<open>task:{task_id}\<close>. Each \<open>await\<close> hands control to the event loop, and the server
  serves other clients between the two commands: \<open>enqueue_task_stores\<close> lists the
  server's state after each command, the states another coroutine or client can see while
  the method runs.
\<close>

definition enqueue_lpush :: "redis \<Rightarrow> task_data \<Rightarrow> py_exception + redis" where
  "enqueue_lpush r td = redis_lpush r ''task_queue'' td"

definition enqueue_hset :: "redis \<Rightarrow> task_data \<Rightarrow> py_exception + redis" where
  "enqueue_hset r td =
     redis_hset r (task_key (task_id td))
       [''status'' \<mapsto> HText ''pending'', ''data'' \<mapsto> HTask td]"

definition enqueue_task ::
  "redis \<Rightarrow> string \<Rightarrow> json \<Rightarrow> string \<Rightarrow> string \<Rightarrow> py_exception + (string \<times> redis)" where
  "enqueue_task r ttype pl tid now =
     (let td = \<lparr>task_id = tid, task_type = ttype, payload = pl, created_at = now\<rparr> in
      case enqueue_lpush r td of
        Inl e \<Rightarrow> Inl e
      | Inr r1 \<Rightarrow>
          (case enqueue_hset r1 td of
             Inl e \<Rightarrow> Inl e
           | Inr r2 \<Rightarrow> Inr (tid, r2)))"

definition enqueue_task_stores ::
  "redis \<Rightarrow> string \<Rightarrow> json \<Rightarrow> string \<Rightarrow> string \<Rightarrow> redis list" where
  "enqueue_task_stores r ttype pl tid now =
     (let td = \<lparr>task_id = tid, task_type = ttype, payload = pl, created_at = now\<rparr> in
      case enqueue_lpush r td of
        Inl e \<Rightarrow> []
      | Inr r1 \<Rightarrow>
          (case enqueue_hset r1 td of
             Inl e \<Rightarrow> [r1]
           | Inr r2 \<Rightarrow> [r1, r2]))"

text \<open>
  One iteration of the \<open>while True\<close> loop of \<open>process_queue\<close>. A handler is a
  callable on the payload; it returns a document or raises, and may change a state \<open>'w\<close>
  of its own. The iteration returns the descriptor it popped, if any, beside the new
  states. The three status writes are \<open>mark_in_progress\<close>, \<open>mark_completed\<close> and
  \<open>mark_failed\<close>; \<open>now\<close> is the clock reading \<open>datetime.utcnow().isoformat()\<close> of the
  terminal write. An exception of the handler, or of the completion write, is caught by
  the inner \<open>except\<close>; the outer \<open>except\<close> swallows every other error of the loop's
  own commands.
\<close>

type_synonym 'w handler = "json \<Rightarrow> 'w \<Rightarrow> (py_exception + json) \<times> 'w"

definition mark_in_progress :: "redis \<Rightarrow> string \<Rightarrow> py_exception + redis" where
  "mark_in_progress r k = redis_hset r k [''status'' \<mapsto> HText ''in_progress'']"

definition mark_failed :: "redis \<Rightarrow> string \<Rightarrow> py_exception \<Rightarrow> string \<Rightarrow> py_exception + redis" where
  "mark_failed r k e now =
     redis_hset r k
       [''status'' \<mapsto> HText ''failed'', ''error'' \<mapsto> HText (exc_str e),
        ''failed_at'' \<mapsto> HText now]"

definition mark_completed :: "redis \<Rightarrow> string \<Rightarrow> json \<Rightarrow> string \<Rightarrow> py_exception + redis" where
  "mark_completed r k res now =
     redis_hset r k
       [''status'' \<mapsto> HText ''completed'', ''result'' \<mapsto> HJson res,
        ''completed_at'' \<mapsto> HText now]"

definition run_handler ::
  "'w handler \<Rightarrow> task_data \<Rightarrow> string \<Rightarrow> redis \<times> 'w \<Rightarrow> redis \<times> 'w" where
  "run_handler h td now s =
     (case s of (r, w) \<Rightarrow>
        (case h (payload td) w of
           (Inr res, w') \<Rightarrow>
             (case mark_completed r (task_key (task_id td)) res now of
                Inr r' \<Rightarrow> (r', w')
              | Inl e \<Rightarrow>
                  (case mark_failed r (task_key (task_id td)) e now of
                     Inr r' \<Rightarrow> (r', w')
                   | Inl e' \<Rightarrow> (r, w')))
         | (Inl e, w') \<Rightarrow>
             (case mark_failed r (task_key (task_id td)) e now of
                Inr r' \<Rightarrow> (r', w')
              | Inl e' \<Rightarrow> (r, w'))))"

definition process_queue_iter ::
  "(string \<rightharpoonup> 'w handler) \<Rightarrow> string \<Rightarrow> redis \<times> 'w \<Rightarrow> task_data option \<times> (redis \<times> 'w)" where
  "process_queue_iter handlers now s =
     (case s of (r, w) \<Rightarrow>
        (case redis_blpop r ''task_queue'' of
           Inl e \<Rightarrow> (None, (r, w))
         | Inr (None, r1) \<Rightarrow> (None, (r1, w))
         | Inr (Some (k, td), r1) \<Rightarrow>
             (case handlers (task_type td) of
                None \<Rightarrow> (Some td, (r1, w))
              | Some h \<Rightarrow>
                  (case mark_in_progress r1 (task_key (task_id td)) of
                     Inl e \<Rightarrow> (Some td, (r1, w))
                   | Inr r2 \<Rightarrow> (Some td, run_handler h td now (r2, w))))))"

text \<open>The loop never returns; \<open>process_queue\<close> runs a given number of its iterations,
  the \<open>i\<close>-th at clock reading \<open>clock i\<close>, and lists what each one popped.\<close>

fun process_queue ::
  "(string \<rightharpoonup> 'w handler) \<Rightarrow> (nat \<Rightarrow> string) \<Rightarrow> nat \<Rightarrow> nat \<Rightarrow> redis \<times> 'w
     \<Rightarrow> task_data option list \<times> (redis \<times> 'w)" where
  "process_queue handlers clock i 0 s = ([], s)"
| "process_queue handlers clock i (Suc n) s =
     (case process_queue_iter handlers (clock i) s of
        (popped, s') \<Rightarrow>
          (case process_queue handlers clock (Suc i) n s' of
             (rest, s'') \<Rightarrow> (popped # rest, s'')))"

definition get_task_status :: "redis \<Rightarrow> string \<Rightarrow> py_exception + (string \<rightharpoonup> hval) option" where
  "get_task_status r tid =
     (case redis_hgetall r (task_key tid) of
        Inl e \<Rightarrow> Inl e
      | Inr h \<Rightarrow> if h = Map.empty then Inr None else Inr (Some h))"

text \<open>A run of \<open>enqueue_task\<close> calls, each with its own type, payload, fresh id and
  clock reading, stopping at the first that raises.\<close>

fun enqueue_all ::
  "redis \<Rightarrow> (string \<times> json \<times> string \<times> string) list \<Rightarrow> py_exception + redis" where
  "enqueue_all r [] = Inr r"
| "enqueue_all r ((ttype, pl, tid, now) # reqs) =
     (case enqueue_task r ttype pl tid now of
        Inl e \<Rightarrow> Inl e
      | Inr (t, r') \<Rightarrow> enqueue_all r' reqs)"

definition descriptor :: "string \<times> json \<times> string \<times> string \<Rightarrow> task_data" where
  "descriptor req =
     (case req of (ttype, pl, tid, now) \<Rightarrow>
        \<lparr>task_id = tid, task_type = ttype, payload = pl, created_at = now\<rparr>)"


section \<open>state.py: StateManager\<close>

datatype task_status = PENDING | IN_PROGRESS | COMPLETED | FAILED

text \<open>\<open>TaskStatus(value)\<close>: the member with that value, or ValueError.\<close>

definition TaskStatus :: "json \<Rightarrow> py_exception + task_status" where
  "TaskStatus v =
     (if v = JStr ''pending'' then Inr PENDING
      else if v = JStr ''in_progress'' then Inr IN_PROGRESS
      else if v = JStr ''completed'' then Inr COMPLETED
      else if v = JStr ''failed'' then Inr FAILED
      else Inl (PyExc ''ValueError'' ''value is not a valid TaskStatus''))"

definition status_value :: "task_status \<Rightarrow> string" where
  "status_value s =
     (case s of PENDING \<Rightarrow> ''pending'' | IN_PROGRESS \<Rightarrow> ''in_progress''
      | COMPLETED \<Rightarrow> ''completed'' | FAILED \<Rightarrow> ''failed'')"

text \<open>
  A \<open>datetime\<close> is carried as the text \<open>isoformat\<close> prints for it.
  \<open>datetime.fromisoformat\<close> raises TypeError on a value that is not a string and
  ValueError on a string that is not an ISO timestamp. Which strings it accepts is the
  standard library's business (and differs between Python versions): the predicate
  \<open>is_iso\<close> is a parameter of the reader.
\<close>

definition fromisoformat :: "(string \<Rightarrow> bool) \<Rightarrow> json \<Rightarrow> py_exception + string" where
  "fromisoformat is_iso v =
     (case v of
        JStr s \<Rightarrow>
          if is_iso s then Inr s
          else Inl (PyExc ''ValueError'' (''Invalid isoformat string: '' @ py_repr s))
      | _ \<Rightarrow> Inl (PyExc ''TypeError'' ''fromisoformat: argument must be str''))"

record task_state =
  state_task_id :: json
  status :: task_status
  state_created_at :: string
  updated_at :: string
  data :: json
  error :: json

definition set_state :: "redis \<Rightarrow> string \<Rightarrow> task_state \<Rightarrow> redis" where
  "set_state r tid st =
     redis_set r (task_key tid)
       (JObj [(''task_id'', JStr tid),
              (''status'', JStr (status_value (status st))),
              (''created_at'', JStr (state_created_at st)),
              (''updated_at'', JStr (updated_at st)),
              (''data'', data st),
              (''error'', error st)])"

definition TaskState_of_dict :: "(string \<Rightarrow> bool) \<Rightarrow> json \<Rightarrow> py_exception + task_state" where
  "TaskState_of_dict is_iso state_dict =
     (case py_getitem state_dict ''task_id'' of Inl e \<Rightarrow> Inl e | Inr tid \<Rightarrow>
     (case py_getitem state_dict ''status'' of Inl e \<Rightarrow> Inl e | Inr sv \<Rightarrow>
     (case TaskStatus sv of Inl e \<Rightarrow> Inl e | Inr s \<Rightarrow>
     (case py_getitem state_dict ''created_at'' of Inl e \<Rightarrow> Inl e | Inr cv \<Rightarrow>
     (case fromisoformat is_iso cv of Inl e \<Rightarrow> Inl e | Inr c \<Rightarrow>
     (case py_getitem state_dict ''updated_at'' of Inl e \<Rightarrow> Inl e | Inr uv \<Rightarrow>
     (case fromisoformat is_iso uv of Inl e \<Rightarrow> Inl e | Inr u \<Rightarrow>
     (case py_getitem state_dict ''data'' of Inl e \<Rightarrow> Inl e | Inr d \<Rightarrow>
     (case py_getitem state_dict ''error'' of Inl e \<Rightarrow> Inl e | Inr er \<Rightarrow>
        Inr \<lparr>state_task_id = tid, status = s, state_created_at = c, updated_at = u,
             data = d, error = er\<rparr>)))))))))"

text \<open>\<open>get_state\<close> sends GET for the key: a string reply is parsed, a missing key gives
  \<open>None\<close>, and the WRONGTYPE reply for a key that holds a hash or a list is raised.\<close>

definition get_state ::
  "(string \<Rightarrow> bool) \<Rightarrow> redis \<Rightarrow> string \<Rightarrow> py_exception + task_state option" where
  "get_state is_iso r tid =
     (case redis_get r (task_key tid) of
        Inl e \<Rightarrow> Inl e
      | Inr None \<Rightarrow> Inr None
      | Inr (Some state_dict) \<Rightarrow>
          (case TaskState_of_dict is_iso state_dict of
             Inl e \<Rightarrow> Inl e
           | Inr st \<Rightarrow> Inr (Some st)))"

text \<open>engine.py, \<open>ResearchAgent.get_research_status\<close>: the state manager's answer.\<close>

definition get_research_status ::
  "(string \<Rightarrow> bool) \<Rightarrow> redis \<Rightarrow> string \<Rightarrow> py_exception + task_state option" where
  "get_research_status is_iso r tid = get_state is_iso r tid"

text \<open>The two stores agree when the task store has an entry for every task id the queue
  holds.\<close>

definition stores_agree :: "redis \<Rightarrow> bool" where
  "stores_agree r = list_all (\<lambda>td. r (task_key (task_id td)) \<noteq> None) (queue_contents r)"

text \<open>A key that holds a hash.\<close>

definition holds_hash :: "redis \<Rightarrow> string \<Rightarrow> bool" where
  "holds_hash r k = (case r k of Some (RHash h) \<Rightarrow> True | _ \<Rightarrow> False)"

section \<open>policy.py: ResearchPolicy\<close>

text \<open>\<open>Action(name, priority)\<close> leaves \<open>params\<close> at its default \<open>None\<close>.\<close>

record action =
  name :: string
  priority :: int
  params :: json

definition Action :: "string \<Rightarrow> int \<Rightarrow> action" where
  "Action n p = \<lparr>name = n, priority = p, params = JNull\<rparr>"

text \<open>The workflow state is the dict \<open>{"searched": ..., "analyzed": ...}\<close>;
  \<open>state_get st k\<close> is the truth value of \<open>state.get(k)\<close>: false for a missing key.\<close>

definition state_get :: "(string \<rightharpoonup> bool) \<Rightarrow> string \<Rightarrow> bool" where
  "state_get st k = (st k = Some True)"

definition select_action :: "(string \<rightharpoonup> bool) \<Rightarrow> action" where
  "select_action st =
     (if \<not> state_get st ''searched'' then Action ''search'' 1
      else if \<not> state_get st ''analyzed'' then Action ''analyze'' 2
      else Action ''summarize'' 3)"

section \<open>tools.py: SearchTool and AnalyzeTool\<close>

datatype source_type = WEB | WIKI | ACADEMIC | NEWS | SCHOLARLY

text \<open>
  tools.py imports \<open>Redis\<close> from \<open>redis.asyncio\<close> (line 3) and builds its client with
  \<open>Redis.from_url\<close> (line 68), as task\_queue.py and state.py do. The command methods of
  that client are coroutine functions: a call returns a coroutine object, and the command
  is sent when the object is awaited. task\_queue.py and state.py await every command.
  \<open>SearchTool.run\<close> calls \<open>self.redis.get(cache_key)\<close> (line 80) and
  \<open>self.redis.setex(...)\<close> (line 95) without \<open>await\<close>: \<open>cached_result\<close> is the
  coroutine object itself, whatever the server holds, and the \<open>setex\<close> call sends
  nothing.

  \<open>py_value\<close> lists what \<open>cached_result\<close> can be for the two operations \<open>run\<close>
  applies to it: \<open>None\<close>, a string (a JSON text, never empty), or a coroutine object.
  An object without \<open>__bool__\<close> and \<open>__len__\<close> is true; \<open>json.loads\<close> raises
  TypeError on anything but \<open>str\<close>, \<open>bytes\<close> and \<open>bytearray\<close>.
\<close>

datatype py_value = NoneVal | StrVal json | CoroutineObj

definition py_truthy :: "py_value \<Rightarrow> bool" where
  "py_truthy v = (case v of NoneVal \<Rightarrow> False | StrVal d \<Rightarrow> True | CoroutineObj \<Rightarrow> True)"

definition json_loads :: "py_value \<Rightarrow> py_exception + json" where
  "json_loads v =
     (case v of
        StrVal d \<Rightarrow> Inr d
      | NoneVal \<Rightarrow>
          Inl (PyExc ''TypeError''
                 ''the JSON object must be str, bytes or bytearray, not NoneType'')
      | CoroutineObj \<Rightarrow>
          Inl (PyExc ''TypeError''
                 ''the JSON object must be str, bytes or bytearray, not coroutine''))"

text \<open>The two calls as \<open>run\<close> makes them, not awaited: the value of the \<open>get\<close> call,
  and the server after the \<open>setex\<close> call.\<close>

definition redis_get_call :: "redis \<Rightarrow> string \<Rightarrow> py_value" where
  "redis_get_call r k = CoroutineObj"

definition redis_setex_call :: "redis \<Rightarrow> string \<Rightarrow> nat \<Rightarrow> json \<Rightarrow> redis" where
  "redis_setex_call r k ttl d = r"

text \<open>
  A provider's \<open>search(query, max_results)\<close> returns a list of items, returns \<open>None\<close>
  (as \<open>DuckDuckGoSearch.search\<close>, whose body is \<open>pass\<close>, does) or raises. The tool
  holds its providers in a dict, read in insertion order. \<open>tool_id\<close> stands for the
  identity of the tool object, which is what its default \<open>__hash__\<close> and \<open>__eq__\<close> tell
  apart.
\<close>

type_synonym provider = "string \<Rightarrow> int \<Rightarrow> py_exception + json list option"

record search_tool =
  tool_id :: nat
  providers :: "(string \<times> provider) list"
  tool_redis :: redis

text \<open>\<open>SearchTool.__init__\<close> (lines 65 to 68): no provider is registered.\<close>

definition SearchTool_init :: "nat \<Rightarrow> redis \<Rightarrow> search_tool" where
  "SearchTool_init ident r = \<lparr>tool_id = ident, providers = [], tool_redis = r\<rparr>"

definition cache_key :: "string \<Rightarrow> string" where
  "cache_key q = ''search:'' @ q"

text \<open>The loop over the providers (lines 86 to 91): an exception of \<open>search\<close>, and the
  TypeError of \<open>results.extend(None)\<close>, are caught and logged.\<close>

fun search_providers :: "provider list \<Rightarrow> string \<Rightarrow> json list \<Rightarrow> json list" where
  "search_providers [] q results = results"
| "search_providers (p # ps) q results =
     (case p q 5 of
        Inl e \<Rightarrow> search_providers ps q results
      | Inr None \<Rightarrow> search_providers ps q results
      | Inr (Some provider_results) \<Rightarrow> search_providers ps q (results @ provider_results))"

text \<open>The block after the cache test (lines 84 to 101). Holding the semaphore changes
  nothing in what one call computes.\<close>

definition run_uncached :: "search_tool \<Rightarrow> string \<Rightarrow> json \<times> search_tool" where
  "run_uncached tool q =
     (let results = search_providers (map snd (providers tool)) q [];
          final_results = take 5 results
      in (JArr final_results,
          tool\<lparr>tool_redis :=
                 redis_setex_call (tool_redis tool) (cache_key q) 3600 (JArr final_results)\<rparr>))"

text \<open>The body of \<open>run\<close> (lines 77 to 101): what awaiting a new coroutine of \<open>run\<close>
  does.\<close>

definition run_body :: "search_tool \<Rightarrow> string \<Rightarrow> (py_exception + json) \<times> search_tool" where
  "run_body tool q =
     (let cached_result = redis_get_call (tool_redis tool) (cache_key q) in
      if py_truthy cached_result then (json_loads cached_result, tool)
      else (case run_uncached tool q of (res, tool') \<Rightarrow> (Inr res, tool')))"

text \<open>
  \<open>run\<close> is an \<open>async def\<close> under \<open>functools.lru_cache(maxsize=100)\<close> (line 75). The
  decorator wraps the function once, in the class body: there is one cache of 100 entries
  for all \<open>SearchTool\<close> objects of the process, with \<open>self\<close> part of the key
  \<open>(self, query, source)\<close>. It memoises what a call of \<open>run\<close> returns, which is the
  coroutine object. \<open>run_cache\<close> lists the memoised keys, the most recently used first;
  \<open>cached_call\<close> is the lookup a call makes: whether it hit, and the cache after it.
  A call that hits gets the coroutine object of the earlier call.
\<close>

type_synonym run_cache = "(nat \<times> string \<times> source_type) list"

definition cached_call :: "run_cache \<Rightarrow> nat \<times> string \<times> source_type \<Rightarrow> bool \<times> run_cache" where
  "cached_call cache key =
     (if key \<in> set cache then (True, key # remove1 key cache)
      else (False, take 100 (key # cache)))"

definition coroutine_reuse :: py_exception where
  "coroutine_reuse = PyExc ''RuntimeError'' ''cannot reuse already awaited coroutine''"

text \<open>
  \<open>await tool.run(q, src)\<close>: the call through the cache, then the await. In a run of
  such statements every memoised coroutine has been awaited by the time a later call gets
  it back, and awaiting a coroutine a second time raises RuntimeError. The state is the
  shared cache and the tool.
\<close>

definition SearchTool_run ::
  "run_cache \<times> search_tool \<Rightarrow> string \<Rightarrow> source_type
     \<Rightarrow> (py_exception + json) \<times> (run_cache \<times> search_tool)" where
  "SearchTool_run s q src =
     (case s of (cache, tool) \<Rightarrow>
        (case cached_call cache (tool_id tool, q, src) of
           (True, cache') \<Rightarrow> (Inl coroutine_reuse, (cache', tool))
         | (False, cache') \<Rightarrow>
             (case run_body tool q of (res, tool') \<Rightarrow> (res, (cache', tool')))))"

text \<open>
  The search step of the orchestrator makes all its calls first,
  \<open>[run(query.query, source) for source in query.sources]\<close>, and awaits the coroutines
  together. Each call returns a new coroutine (a miss), the coroutine an earlier call of
  this same list made (a hit on it: the same object twice in the list, which
  \<open>asyncio.gather\<close> awaits once and whose outcome it gives both positions), or a
  coroutine memoised before the list was built, which has been awaited. \<open>made\<close> holds the
  keys whose coroutine this list made. \<open>await_all\<close> gives the outcome at each position.
\<close>

datatype coroutine = New | Shared | Awaited

fun search_calls ::
  "run_cache \<Rightarrow> (nat \<times> string \<times> source_type) list \<Rightarrow> nat \<Rightarrow> string \<Rightarrow> source_type list
     \<Rightarrow> (coroutine \<times> source_type) list \<times> run_cache" where
  "search_calls cache made ident q [] = ([], cache)"
| "search_calls cache made ident q (src # srcs) =
     (case cached_call cache (ident, q, src) of
        (True, cache') \<Rightarrow>
          (case search_calls cache' made ident q srcs of
             (cs, cache'') \<Rightarrow>
               ((if (ident, q, src) \<in> set made then Shared else Awaited, src) # cs, cache''))
      | (False, cache') \<Rightarrow>
          (case search_calls cache' ((ident, q, src) # made) ident q srcs of
             (cs, cache'') \<Rightarrow> ((New, src) # cs, cache'')))"

fun await_all ::
  "search_tool \<Rightarrow> string \<Rightarrow> (coroutine \<times> source_type) list
     \<Rightarrow> (source_type \<times> (py_exception + json)) list
     \<Rightarrow> (py_exception + json) list \<times> search_tool" where
  "await_all tool q [] outcomes = ([], tool)"
| "await_all tool q ((Awaited, src) # cs) outcomes =
     (case await_all tool q cs outcomes of
        (outs, tool') \<Rightarrow> (Inl coroutine_reuse # outs, tool'))"
| "await_all tool q ((New, src) # cs) outcomes =
     (case run_body tool q of
        (res, tool1) \<Rightarrow>
          (case await_all tool1 q cs ((src, res) # outcomes) of
             (outs, tool') \<Rightarrow> (res # outs, tool')))"
| "await_all tool q ((Shared, src) # cs) outcomes =
     (case map_of outcomes src of
        Some res \<Rightarrow>
          (case await_all tool q cs outcomes of (outs, tool') \<Rightarrow> (res # outs, tool'))
      | None \<Rightarrow>
          (case run_body tool q of
             (res, tool1) \<Rightarrow>
               (case await_all tool1 q cs ((src, res) # outcomes) of
                  (outs, tool') \<Rightarrow> (res # outs, tool'))))"

definition SearchTool_run_all ::
  "run_cache \<times> search_tool \<Rightarrow> string \<Rightarrow> source_type list
     \<Rightarrow> (py_exception + json) list \<times> (run_cache \<times> search_tool)" where
  "SearchTool_run_all s q srcs =
     (case s of (cache, tool) \<Rightarrow>
        (case search_calls cache [] (tool_id tool) q srcs of
           (cs, cache') \<Rightarrow>
             (case await_all tool q cs [] of
                (outs, tool') \<Rightarrow> (outs, (cache', tool')))))"

text \<open>
  \<open>AnalyzeTool.run\<close> returns the dict \<open>{"text", "relevance", "summary"}\<close> on both of its
  paths, so the dict is a record here. For a string it keeps the first 500 characters,
  scores the length and joins the first three sentences. For any other content the slice
  or \<open>split\<close> raises, and the \<open>except\<close> clause returns the degraded result.
  \<open>split_on\<close> is \<open>str.split\<close> with a one-character separator, \<open>py_join\<close> is
  \<open>str.join\<close>.
\<close>

record analysis =
  analysis_text :: json
  relevance :: rat
  summary :: json

definition calculate_relevance :: "string \<Rightarrow> rat" where
  "calculate_relevance content =
     (if content = [] then 0 else min (of_nat (length content) / 1000) 1)"

fun split_on :: "char \<Rightarrow> string \<Rightarrow> string list" where
  "split_on c [] = [[]]"
| "split_on c (x # xs) =
     (if x = c then [] # split_on c xs
      else (case split_on c xs of p # ps \<Rightarrow> (x # p) # ps | [] \<Rightarrow> [[x]]))"

fun py_join :: "string \<Rightarrow> string list \<Rightarrow> string" where
  "py_join sep [] = []"
| "py_join sep [p] = p"
| "py_join sep (p # q # ps) = p @ sep @ py_join sep (q # ps)"

definition extract_summary :: "string \<Rightarrow> string" where
  "extract_summary content = py_join ''. '' (take 3 (split_on CHR ''.'' content)) @ ''.''"

definition AnalyzeTool_run :: "json \<Rightarrow> analysis" where
  "AnalyzeTool_run content =
     (case content of
        JStr s \<Rightarrow>
          \<lparr>analysis_text = JStr (take 500 s), relevance = calculate_relevance s,
           summary = JStr (extract_summary s)\<rparr>
      | _ \<Rightarrow> \<lparr>analysis_text = content, relevance = 0, summary = JNull\<rparr>)"

definition analysis_json :: "analysis \<Rightarrow> json" where
  "analysis_json a =
     JObj [(''text'', analysis_text a), (''relevance'', JNum (relevance a)),
           (''summary'', summary a)]"

section \<open>engine.py: ResearchAgent\<close>

text \<open>
  The payload of a research task is \<open>{"query": query.dict()}\<close>. \<open>_execute_research\<close>
  rebuilds the \<open>ResearchQuery\<close> from it (line 49), which runs the field validators of
  models.py. The record carries the three fields the workflow reads; \<open>valid_query\<close> is
  what the validators ask of them.
\<close>

record research_query =
  query :: string
  sources :: "source_type list"
  max_results :: int

definition valid_query :: "research_query \<Rightarrow> bool" where
  "valid_query rq =
     (3 \<le> length (query rq) \<and> length (query rq) \<le> 500 \<and> sources rq \<noteq> [] \<and>
      1 \<le> max_results rq \<and> max_results rq \<le> 50)"

definition ResearchQuery_init :: "research_query \<Rightarrow> py_exception + research_query" where
  "ResearchQuery_init rq =
     (if valid_query rq then Inr rq
      else Inl (PyExc ''ValidationError'' ''validation error for ResearchQuery''))"

text \<open>
  \<open>_execute_research\<close> reads three attributes of the agent: \<open>self.policy\<close>, and the
  tools \<open>self.tools["search"]\<close> and \<open>self.tools["analyze"]\<close>; they are parameters
  here. \<open>ResearchAgent.__init__\<close> (lines 24 to 28) binds \<open>self.policy\<close> to a
  \<open>ResearchQuery\<close>, which has no \<open>select_action\<close>; policy.py defines the
  \<open>ResearchPolicy\<close> that has one, and engine.py never imports it.
\<close>

datatype policy_obj = ResearchPolicyObj | ResearchQueryObj research_query

definition ResearchAgent_policy :: policy_obj where
  "ResearchAgent_policy =
     ResearchQueryObj \<lparr>query = ''default'', sources = [WEB], max_results = 5\<rparr>"

definition no_select_action :: py_exception where
  "no_select_action =
     PyExc ''AttributeError''
       (py_repr ''ResearchQuery'' @ '' object has no attribute '' @ py_repr ''select_action'')"

definition policy_select_action ::
  "policy_obj \<Rightarrow> (string \<rightharpoonup> bool) \<Rightarrow> py_exception + action" where
  "policy_select_action pol st =
     (case pol of
        ResearchPolicyObj \<Rightarrow> Inr (select_action st)
      | ResearchQueryObj rq \<Rightarrow> Inl no_select_action)"

text \<open>A list comprehension over expressions that can raise: the first exception in list
  order is the one raised.\<close>

fun map_exc :: "('a \<Rightarrow> py_exception + 'b) \<Rightarrow> 'a list \<Rightarrow> py_exception + 'b list" where
  "map_exc f [] = Inr []"
| "map_exc f (x # xs) =
     (case f x of
        Inl e \<Rightarrow> Inl e
      | Inr y \<Rightarrow> (case map_exc f xs of Inl e \<Rightarrow> Inl e | Inr ys \<Rightarrow> Inr (y # ys)))"

text \<open>
  \<open>await asyncio.gather(*aws)\<close>: the outcomes of the awaitables, by position, are
  \<open>outs\<close>. If none raised, the values are returned in position order. Otherwise the
  exception raised is that of the awaitable that failed first in time, which the event
  loop and the awaited I/O decide: \<open>order\<close> lists positions in the order they finished
  (positions it leaves out finished after them, in position order).
\<close>

definition first_raised :: "nat list \<Rightarrow> (py_exception + 'a) list \<Rightarrow> py_exception option" where
  "first_raised order outs =
     (case filter (\<lambda>i. i < length outs \<and> isl (outs ! i)) (order @ [0..<length outs]) of
        [] \<Rightarrow> None
      | i # rest \<Rightarrow> Some (projl (outs ! i)))"

definition gather :: "nat list \<Rightarrow> (py_exception + 'a) list \<Rightarrow> py_exception + 'a list" where
  "gather order outs =
     (case first_raised order outs of
        Some e \<Rightarrow> Inl e
      | None \<Rightarrow> Inr (map projr outs))"

text \<open>The search step's calls \<open>run(query.query, source)\<close>, one per source, awaited
  together (lines 55 to 60). \<open>run_all\<close> is the search tool: the outcome of the coroutine
  at each position, and the tool's state after.\<close>

definition gather_search ::
  "('ts \<Rightarrow> string \<Rightarrow> source_type list \<Rightarrow> (py_exception + json) list \<times> 'ts) \<Rightarrow> nat list \<Rightarrow> 'ts
     \<Rightarrow> string \<Rightarrow> source_type list \<Rightarrow> (py_exception + json list) \<times> 'ts" where
  "gather_search run_all order tool q srcs =
     (case run_all tool q srcs of (outs, tool') \<Rightarrow> (gather order outs, tool'))"

text \<open>\<open>[item for sublist in search_results for item in sublist]\<close>: iterating a list
  gives its elements, a dict its keys, a string its characters.\<close>

definition py_iter :: "json \<Rightarrow> py_exception + json list" where
  "py_iter v =
     (case v of
        JArr xs \<Rightarrow> Inr xs
      | JObj kvs \<Rightarrow> Inr (map (\<lambda>kv. JStr (fst kv)) kvs)
      | JStr s \<Rightarrow> Inr (map (\<lambda>c. JStr [c]) s)
      | _ \<Rightarrow> Inl (PyExc ''TypeError'' ''object is not iterable''))"

definition flatten :: "json list \<Rightarrow> py_exception + json list" where
  "flatten search_results =
     (case map_exc py_iter search_results of Inl e \<Rightarrow> Inl e | Inr xss \<Rightarrow> Inr (concat xss))"

text \<open>The dict built for one item and its analysis (lines 75 to 80). \<open>analysis\<close> always
  has the key \<open>"relevance"\<close>, so the default of \<open>.get\<close> is never taken.\<close>

definition analyzed_result :: "json \<times> analysis \<Rightarrow> py_exception + json" where
  "analyzed_result ra =
     (case ra of (res, a) \<Rightarrow>
        (case py_getitem res ''source'' of
           Inl e \<Rightarrow> Inl e
         | Inr src \<Rightarrow>
             (case py_getitem res ''metadata'' of
                Inl e \<Rightarrow> Inl e
              | Inr (JObj kvs) \<Rightarrow>
                  Inr (JObj [(''source'', src), (''content'', analysis_text a),
                             (''metadata'',
                                JObj (AList.update ''analysis'' (analysis_json a) kvs)),
                             (''relevance_score'', JNum (relevance a))])
              | Inr meta \<Rightarrow> Inl (PyExc ''TypeError'' ''object is not a mapping''))))"

definition relevance_score :: "json \<Rightarrow> rat" where
  "relevance_score x = (case py_getitem x ''relevance_score'' of Inr (JNum s) \<Rightarrow> s | _ \<Rightarrow> 0)"

text \<open>\<open>sorted(xs, key=key, reverse=True)\<close>: CPython reverses the list, sorts it with its
  stable sort and reverses the result. \<open>xs[:m]\<close> counts a negative \<open>m\<close> from the
  end.\<close>

definition py_sorted_reverse :: "('a \<Rightarrow> rat) \<Rightarrow> 'a list \<Rightarrow> 'a list" where
  "py_sorted_reverse key xs = rev (sort_key key (rev xs))"

definition py_slice_to :: "'a list \<Rightarrow> int \<Rightarrow> 'a list" where
  "py_slice_to xs m = (if 0 \<le> m then take (nat m) xs else take (length xs - nat (- m)) xs)"

text \<open>The analyze step (lines 67 to 89): the contents are read in a list comprehension, the
  analyses are awaited together, the result dicts are built in a list comprehension.\<close>

definition analyze_stage ::
  "(json \<Rightarrow> py_exception + analysis) \<Rightarrow> nat list \<Rightarrow> int \<Rightarrow> json list
     \<Rightarrow> py_exception + json list" where
  "analyze_stage analyze order m results =
     (case map_exc (\<lambda>res. py_getitem res ''content'') results of
        Inl e \<Rightarrow> Inl e
      | Inr contents \<Rightarrow>
          (case gather order (map analyze contents) of
             Inl e \<Rightarrow> Inl e
           | Inr analyses \<Rightarrow>
               (case map_exc analyzed_result (zip results analyses) of
                  Inl e \<Rightarrow> Inl e
                | Inr analyzed_results \<Rightarrow>
                    Inr (py_slice_to (py_sorted_reverse relevance_score analyzed_results) m))))"

text \<open>
  The loop \<open>while action := self.policy.select_action(state)\<close> (lines 53 to 93); an
  \<open>Action\<close> object is always true. \<open>search_order\<close> and \<open>analysis_order\<close> are the
  orders in which the awaitables of the two \<open>gather\<close> calls finish. \<open>steps\<close> records
  the name of each step as it is entered; it is not a variable of the program.
\<close>

function research_loop ::
  "policy_obj \<Rightarrow> ('ts \<Rightarrow> string \<Rightarrow> source_type list \<Rightarrow> (py_exception + json) list \<times> 'ts)
     \<Rightarrow> (json \<Rightarrow> py_exception + analysis) \<Rightarrow> nat list \<Rightarrow> nat list \<Rightarrow> research_query
     \<Rightarrow> (string \<rightharpoonup> bool) \<Rightarrow> json list \<Rightarrow> 'ts \<Rightarrow> string list
     \<Rightarrow> (py_exception + json list) \<times> 'ts \<times> string list" where
  "research_loop pol run_all analyze search_order analysis_order rq st results tool steps =
     (case policy_select_action pol st of
        Inl e \<Rightarrow> (Inl e, tool, steps)
      | Inr a \<Rightarrow>
          if name a = ''search'' then
            (case gather_search run_all search_order tool (query rq) (sources rq) of
               (Inl e, tool') \<Rightarrow> (Inl e, tool', steps @ [''search''])
             | (Inr search_results, tool') \<Rightarrow>
                 (case flatten search_results of
                    Inl e \<Rightarrow> (Inl e, tool', steps @ [''search''])
                  | Inr items \<Rightarrow>
                      research_loop pol run_all analyze search_order analysis_order rq
                        (st(''searched'' \<mapsto> True)) (results @ items) tool'
                        (steps @ [''search''])))
          else if name a = ''analyze'' then
            (case analyze_stage analyze analysis_order (max_results rq) results of
               Inl e \<Rightarrow> (Inl e, tool, steps @ [''analyze''])
             | Inr sorted_results \<Rightarrow>
                 research_loop pol run_all analyze search_order analysis_order rq
                   (st(''analyzed'' \<mapsto> True)) sorted_results tool (steps @ [''analyze'']))
          else if name a = ''summarize'' then (Inr results, tool, steps)
          else research_loop pol run_all analyze search_order analysis_order rq st results
                 tool steps)"
  by pat_completeness auto
termination
proof (relation "measure (\<lambda>(pol, run_all, analyze, so, ao, rq, st, results, tool, steps).
          (if state_get st ''searched'' then 0 else 2) +
          (if state_get st ''analyzed'' then 0 else 1))")
  show "wf (measure (\<lambda>(pol, run_all, analyze, so, ao, rq, st, results, tool, steps).
          (if state_get st ''searched'' then 0 else (2::nat)) +
          (if state_get st ''analyzed'' then 0 else 1)))"
    by simp
qed (auto simp: policy_select_action_def select_action_def Action_def state_get_def
      split: policy_obj.splits if_splits)

declare research_loop.simps [simp del]

definition execute_research ::
  "policy_obj \<Rightarrow> ('ts \<Rightarrow> string \<Rightarrow> source_type list \<Rightarrow> (py_exception + json) list \<times> 'ts)
     \<Rightarrow> (json \<Rightarrow> py_exception + analysis) \<Rightarrow> nat list \<Rightarrow> nat list \<Rightarrow> 'ts \<Rightarrow> research_query
     \<Rightarrow> (py_exception + json list) \<times> 'ts \<times> string list" where
  "execute_research pol run_all analyze search_order analysis_order tool payload_query =
     (case ResearchQuery_init payload_query of
        Inl e \<Rightarrow> (Inl e, tool, [])
      | Inr rq \<Rightarrow>
          research_loop pol run_all analyze search_order analysis_order rq
            [''searched'' \<mapsto> False, ''analyzed'' \<mapsto> False] [] tool [])"

section \<open>models.py: ResearchTask\<close>

text \<open>
  models.py has a task model of its own, with the status enumeration task\_queue.py
  imports. Its \<open>update_status\<close> (lines 158 to 166) is the repository's routine for a
  status change: it stamps \<open>updated_at\<close> with the clock at every change, keeps a
  non-empty error text, and on completion stamps \<open>completed_at\<close> and sets the progress
  to 1. The two clock readings are inputs.
\<close>

datatype model_status = Pending | InProgress | Completed | Failed | Cancelled

record research_task =
  rt_status :: model_status
  rt_updated_at :: string
  rt_completed_at :: "string option"
  rt_error :: "string option"
  rt_progress :: rat

definition update_status ::
  "research_task \<Rightarrow> model_status \<Rightarrow> string option \<Rightarrow> string \<Rightarrow> string \<Rightarrow> research_task" where
  "update_status t s err now now' =
     (let t1 = t\<lparr>rt_status := s, rt_updated_at := now\<rparr>;
          t2 = (case err of
                  None \<Rightarrow> t1
                | Some e \<Rightarrow> if e = [] then t1 else t1\<lparr>rt_error := Some e\<rparr>)
      in if s = Completed then t2\<lparr>rt_completed_at := Some now', rt_progress := 1\<rparr> else t2)"

section \<open>The queue is served last in, first out\<close>

lemma task_key_not_queue: "task_key tid \<noteq> ''task_queue''"
  by (simp add: task_key_def)

lemma queue_not_task_key: "''task_queue'' \<noteq> task_key tid"
  by (simp add: task_key_def)

lemma queue_contents_hset:
  "redis_hset r (task_key k) m = Inr r' \<Longrightarrow> queue_contents r' = queue_contents r"
  by (auto simp: redis_hset_def queue_contents_def task_key_not_queue queue_not_task_key
      split: option.splits rvalue.splits)

lemma queue_contents_lpush:
  "redis_lpush r ''task_queue'' x = Inr r' \<Longrightarrow> queue_contents r' = x # queue_contents r"
  by (auto simp: redis_lpush_def queue_contents_def split: option.splits rvalue.splits)

lemma queue_contents_enqueue_task:
  "enqueue_task r ttype pl tid now = Inr (t, r') \<Longrightarrow>
     t = tid \<and> queue_contents r' = descriptor (ttype, pl, tid, now) # queue_contents r"
  by (auto simp: enqueue_task_def enqueue_lpush_def enqueue_hset_def Let_def descriptor_def
      queue_contents_hset queue_contents_lpush split: sum.splits)

lemma queue_contents_enqueue_all:
  "enqueue_all r reqs = Inr r' \<Longrightarrow>
     queue_contents r' = rev (map descriptor reqs) @ queue_contents r"
proof (induction reqs arbitrary: r)
  case Nil
  then show ?case by simp
next
  case (Cons req reqs)
  obtain ttype pl tid now where req: "req = (ttype, pl, tid, now)"
    by (cases req) auto
  from Cons.prems req obtain t r1 where
    e1: "enqueue_task r ttype pl tid now = Inr (t, r1)" and e2: "enqueue_all r1 reqs = Inr r'"
    by (auto split: sum.splits)
  from Cons.IH [OF e2] queue_contents_enqueue_task [OF e1] req
  show ?case by simp
qed

lemma queue_contents_blpop:
  "queue_contents r = x # xs \<Longrightarrow>
     \<exists>r1. redis_blpop r ''task_queue'' = Inr (Some (''task_queue'', x), r1) \<and>
          queue_contents r1 = xs"
  by (cases "r ''task_queue''")
     (auto simp: redis_blpop_def queue_contents_def split: rvalue.splits)

lemma queue_contents_mark_failed:
  "mark_failed r (task_key k) e now = Inr r' \<Longrightarrow> queue_contents r' = queue_contents r"
  by (simp add: mark_failed_def queue_contents_hset)

lemma queue_contents_mark_completed:
  "mark_completed r (task_key k) res now = Inr r' \<Longrightarrow> queue_contents r' = queue_contents r"
  by (simp add: mark_completed_def queue_contents_hset)

lemma queue_contents_mark_in_progress:
  "mark_in_progress r (task_key k) = Inr r' \<Longrightarrow> queue_contents r' = queue_contents r"
  by (simp add: mark_in_progress_def queue_contents_hset)

lemma queue_contents_run_handler:
  "queue_contents (fst (run_handler h td now (r, w))) = queue_contents r"
  by (auto simp: run_handler_def queue_contents_mark_failed queue_contents_mark_completed
      split: prod.splits sum.splits)

lemma process_queue_iter_pops_head:
  assumes "queue_contents r = x # xs"
  shows "fst (process_queue_iter handlers now (r, w)) = Some x \<and>
         queue_contents (fst (snd (process_queue_iter handlers now (r, w)))) = xs"
proof -
  from queue_contents_blpop [OF assms] obtain r1 where
    b: "redis_blpop r ''task_queue'' = Inr (Some (''task_queue'', x), r1)" and
    q: "queue_contents r1 = xs"
    by blast
  show ?thesis
    using b q
    by (auto simp: process_queue_iter_def queue_contents_run_handler
        queue_contents_mark_in_progress
        split: option.splits sum.splits)
qed

lemma process_queue_pops_prefix:
  "n \<le> length (queue_contents r) \<Longrightarrow>
     fst (process_queue handlers clock i n (r, w)) = map Some (take n (queue_contents r))"
proof (induction n arbitrary: r w i)
  case 0
  then show ?case by simp
next
  case (Suc n)
  then obtain x xs where q: "queue_contents r = x # xs"
    by (cases "queue_contents r") auto
  obtain p r1 w1 where it: "process_queue_iter handlers (clock i) (r, w) = (p, (r1, w1))"
    by (metis prod.exhaust)
  from process_queue_iter_pops_head [OF q, of handlers "clock i" w] it
  have p: "p = Some x" and q1: "queue_contents r1 = xs" by simp_all
  from Suc.prems q q1 have "n \<le> length (queue_contents r1)" by simp
  from Suc.IH [OF this, of "Suc i" w1] it p q q1
  show ?case by (cases "process_queue handlers clock (Suc i) n (r1, w1)") simp
qed

text \<open>
  Claim C3. After a run of \<open>enqueue_task\<close> calls, the consumer loop's next pops (with no
  enqueue in between) deliver the descriptors in the reverse of the order they were
  enqueued in: the \<open>n\<close> first iterations pop the \<open>n\<close> most recent descriptors, the most
  recent first. LPUSH and BLPOP work at the same end of the list.
\<close>

theorem consumer_pops_newest_first:
  assumes "enqueue_all r reqs = Inr r'" and "n \<le> length reqs"
  shows "fst (process_queue handlers clock i n (r', w)) =
           map Some (take n (rev (map descriptor reqs)))"
proof -
  have q: "queue_contents r' = rev (map descriptor reqs) @ queue_contents r"
    by (rule queue_contents_enqueue_all [OF assms(1)])
  with assms(2) have "n \<le> length (queue_contents r')" by simp
  from process_queue_pops_prefix [OF this] q assms(2) show ?thesis by simp
qed


theorem consumer_pops_newest_first_witness:
  "\<exists>r'. enqueue_all Map.empty
          [(''research'', JStr ''first'', ''id1'', ''t1''),
           (''research'', JStr ''second'', ''id2'', ''t2'')] = Inr r' \<and>
        fst (process_queue [''research'' \<mapsto> (\<lambda>p w. (Inr p, w))] (\<lambda>i. ''t3'') 0 2 (r', ())) =
          [Some \<lparr>task_id = ''id2'', task_type = ''research'', payload = JStr ''second'',
                  created_at = ''t2''\<rparr>,
           Some \<lparr>task_id = ''id1'', task_type = ''research'', payload = JStr ''first'',
                  created_at = ''t1''\<rparr>]"
proof -
  obtain r' where e: "enqueue_all Map.empty
          [(''research'', JStr ''first'', ''id1'', ''t1''),
           (''research'', JStr ''second'', ''id2'', ''t2'')] = Inr r'"
    by (simp add: enqueue_task_def enqueue_lpush_def enqueue_hset_def redis_lpush_def
        redis_hset_def task_key_def Let_def)
  from consumer_pops_newest_first [OF e, of 2 "[''research'' \<mapsto> (\<lambda>p w. (Inr p, w))]"
      "\<lambda>i. ''t3''" 0 "()"] e
  show ?thesis by (simp add: descriptor_def)
qed

section \<open>The status poll cannot read what the queue writes\<close>

lemma holds_hash_hset:
  "redis_hset r k m = Inr r' \<Longrightarrow> holds_hash r k' \<Longrightarrow> holds_hash r' k'"
  by (auto simp: redis_hset_def holds_hash_def split: option.splits rvalue.splits if_splits)

lemma holds_hash_hset_same:
  "redis_hset r k m = Inr r' \<Longrightarrow> holds_hash r' k"
  by (auto simp: redis_hset_def holds_hash_def split: option.splits rvalue.splits)

lemma holds_hash_blpop:
  "redis_blpop r ''task_queue'' = Inr (p, r') \<Longrightarrow> holds_hash r (task_key k) \<Longrightarrow>
     holds_hash r' (task_key k)"
  by (auto simp: redis_blpop_def holds_hash_def task_key_not_queue
      split: option.splits rvalue.splits list.splits if_splits)

lemma holds_hash_run_handler:
  "holds_hash r k \<Longrightarrow> holds_hash (fst (run_handler h td now (r, w))) k"
  by (auto simp: run_handler_def mark_completed_def mark_failed_def
      split: prod.splits sum.splits dest: holds_hash_hset)

lemma holds_hash_iter:
  assumes "holds_hash r (task_key k)"
  shows "holds_hash (fst (snd (process_queue_iter handlers now (r, w)))) (task_key k)"
  using assms
  by (auto simp: process_queue_iter_def mark_in_progress_def holds_hash_run_handler
      split: sum.splits option.splits prod.splits
      dest: holds_hash_blpop holds_hash_hset)

lemma holds_hash_process_queue:
  "holds_hash r (task_key k) \<Longrightarrow>
     holds_hash (fst (snd (process_queue handlers clock i n (r, w)))) (task_key k)"
proof (induction n arbitrary: r w i)
  case 0
  then show ?case by simp
next
  case (Suc n)
  obtain p r1 w1 where it: "process_queue_iter handlers (clock i) (r, w) = (p, (r1, w1))"
    by (metis prod.exhaust)
  from holds_hash_iter [OF Suc.prems, of handlers "clock i" w] it
  have "holds_hash r1 (task_key k)" by simp
  from Suc.IH [OF this, of "Suc i" w1] it
  show ?case by (cases "process_queue handlers clock (Suc i) n (r1, w1)") simp
qed

lemma holds_hash_enqueue_task:
  "enqueue_task r ttype pl tid now = Inr (t, r') \<Longrightarrow> t = tid \<and> holds_hash r' (task_key tid)"
  by (auto simp: enqueue_task_def enqueue_hset_def Let_def split: sum.splits
      dest: holds_hash_hset_same)

lemma get_state_hash: "holds_hash r (task_key tid) \<Longrightarrow> get_state is_iso r tid = Inl WRONGTYPE"
  by (auto simp: get_state_def redis_get_def holds_hash_def split: option.splits rvalue.splits)

text \<open>
  Claim C2. For the task id that \<open>enqueue_task\<close> returns, the status-polling path
  \<open>get_research_status\<close> (that is, \<open>StateManager.get_state\<close>) never returns the task's
  state, neither right after the enqueue nor after any number of iterations of the
  consumer loop: the writer keeps a hash under \<open>task:{task_id}\<close>, the reader sends GET
  for the same key and expects the JSON text of a state dict, and the server answers
  WRONGTYPE, which the call raises.
\<close>

theorem status_poll_never_reads_enqueued_task:
  assumes "enqueue_task r ttype pl tid now = Inr (t, r')"
  shows "get_research_status is_iso (fst (snd (process_queue handlers clock i n (r', w)))) t
           = Inl WRONGTYPE"
proof -
  from holds_hash_enqueue_task [OF assms]
  have t: "t = tid" and h: "holds_hash r' (task_key tid)"
    by simp_all
  have "holds_hash (fst (snd (process_queue handlers clock i n (r', w)))) (task_key tid)"
    by (rule holds_hash_process_queue [OF h])
  with t show ?thesis
    by (simp add: get_research_status_def get_state_hash)
qed


theorem status_poll_witness:
  "enqueue_task Map.empty ''research'' (JStr ''q'') ''id1'' ''t1'' =
     Inr (''id1'',
          [''task_queue'' \<mapsto> RList [\<lparr>task_id = ''id1'', task_type = ''research'',
                                        payload = JStr ''q'', created_at = ''t1''\<rparr>],
           ''task:id1'' \<mapsto> RHash [''status'' \<mapsto> HText ''pending'',
                                   ''data'' \<mapsto> HTask \<lparr>task_id = ''id1'', task_type = ''research'',
                                        payload = JStr ''q'', created_at = ''t1''\<rparr>]]) \<and>
   get_research_status (\<lambda>s. length s = 26)
     (fst (snd (process_queue [''research'' \<mapsto> (\<lambda>p w. (Inr (JArr []), w))] (\<lambda>i. ''t2'') 0 1
       ([''task_queue'' \<mapsto> RList [\<lparr>task_id = ''id1'', task_type = ''research'',
                                        payload = JStr ''q'', created_at = ''t1''\<rparr>],
         ''task:id1'' \<mapsto> RHash [''status'' \<mapsto> HText ''pending'',
                                   ''data'' \<mapsto> HTask \<lparr>task_id = ''id1'', task_type = ''research'',
                                        payload = JStr ''q'', created_at = ''t1''\<rparr>]], ()))))
     ''id1''
     = Inl WRONGTYPE"
proof -
  have e: "enqueue_task Map.empty ''research'' (JStr ''q'') ''id1'' ''t1'' =
     Inr (''id1'',
          [''task_queue'' \<mapsto> RList [\<lparr>task_id = ''id1'', task_type = ''research'',
                                        payload = JStr ''q'', created_at = ''t1''\<rparr>],
           ''task:id1'' \<mapsto> RHash [''status'' \<mapsto> HText ''pending'',
                                   ''data'' \<mapsto> HTask \<lparr>task_id = ''id1'', task_type = ''research'',
                                        payload = JStr ''q'', created_at = ''t1''\<rparr>]])"
    by (simp add: enqueue_task_def enqueue_lpush_def enqueue_hset_def redis_lpush_def
        redis_hset_def task_key_def Let_def)
  show ?thesis
    by (rule conjI [OF e status_poll_never_reads_enqueued_task [OF e]])
qed

text \<open>The reader does read what its own writer \<open>set_state\<close> stores (with timestamps
  that \<open>fromisoformat\<close> accepts, as the texts \<open>isoformat\<close> prints are), and answers
  \<open>None\<close> for a key the server does not hold.\<close>

lemma get_state_missing: "r (task_key tid) = None \<Longrightarrow> get_state is_iso r tid = Inr None"
  by (simp add: get_state_def redis_get_def)

lemma get_state_set_state:
  "is_iso (state_created_at st) \<Longrightarrow> is_iso (updated_at st) \<Longrightarrow>
     get_state is_iso (set_state r tid st) tid = Inr (Some (st\<lparr>state_task_id := JStr tid\<rparr>))"
  by (cases "status st")
     (simp_all add: get_state_def set_state_def redis_get_def redis_set_def TaskState_of_dict_def
        TaskStatus_def status_value_def fromisoformat_def)

section \<open>The two writes of enqueue\_task\<close>

lemma lpush_breaks_agreement:
  assumes "r (task_key tid) = None"
    and "enqueue_lpush r \<lparr>task_id = tid, task_type = ttype, payload = pl, created_at = now\<rparr> = Inr r1"
  shows "\<not> stores_agree r1"
  using assms
  by (auto simp: enqueue_lpush_def redis_lpush_def stores_agree_def queue_contents_def
      task_key_not_queue split: option.splits rvalue.splits)

text \<open>
  Claim C4. \<open>enqueue_task\<close> is to push the descriptor and create the task's store entry
  as one logical operation, so that the queue never holds a task id the store has no entry
  for. The method awaits LPUSH first and HSET second: in the state between the two writes
  the queue holds the new id and the store has no entry for it. Evaluated on an empty
  server: the first of the two observable states violates \<open>stores_agree\<close>.
\<close>

theorem enqueue_task_window:
  "enqueue_task_stores Map.empty ''research'' (JStr ''q'') ''id1'' ''t1'' =
     [[''task_queue'' \<mapsto> RList [\<lparr>task_id = ''id1'', task_type = ''research'',
                                   payload = JStr ''q'', created_at = ''t1''\<rparr>]],
      [''task_queue'' \<mapsto> RList [\<lparr>task_id = ''id1'', task_type = ''research'',
                                   payload = JStr ''q'', created_at = ''t1''\<rparr>],
       ''task:id1'' \<mapsto> RHash [''status'' \<mapsto> HText ''pending'',
                               ''data'' \<mapsto> HTask \<lparr>task_id = ''id1'', task_type = ''research'',
                                   payload = JStr ''q'', created_at = ''t1''\<rparr>]]] \<and>
   \<not> stores_agree (hd (enqueue_task_stores Map.empty ''research'' (JStr ''q'') ''id1'' ''t1''))"
  by (simp add: enqueue_task_stores_def enqueue_lpush_def enqueue_hset_def redis_lpush_def
      redis_hset_def task_key_def Let_def stores_agree_def queue_contents_def)

text \<open>The consumer runs in the window: the task completes, then the enqueue's second write
  sets it back to pending.\<close>

lemma enqueue_window_reverts_status:
  "\<exists>r1 r2 r3.
     enqueue_lpush Map.empty \<lparr>task_id = ''id1'', task_type = ''research'',
                                   payload = JStr ''q'', created_at = ''t1''\<rparr> = Inr r1 \<and>
     process_queue_iter [''research'' \<mapsto> (\<lambda>p w. (Inr (JArr []), w))] ''t2'' (r1, ()) =
        (Some \<lparr>task_id = ''id1'', task_type = ''research'',
                                   payload = JStr ''q'', created_at = ''t1''\<rparr>, (r2, ())) \<and>
     hash_field r2 ''task:id1'' ''status'' = Some (HText ''completed'') \<and>
     enqueue_hset r2 \<lparr>task_id = ''id1'', task_type = ''research'',
                                   payload = JStr ''q'', created_at = ''t1''\<rparr> = Inr r3 \<and>
     hash_field r3 ''task:id1'' ''status'' = Some (HText ''pending'') \<and>
     queue_contents r3 = []"
  by (simp add: enqueue_lpush_def enqueue_hset_def redis_lpush_def redis_blpop_def
      redis_hset_def task_key_def process_queue_iter_def run_handler_def mark_in_progress_def
      mark_completed_def hash_field_def queue_contents_def)

section \<open>What the consumer loop writes on a transition\<close>

lemma blpop_head:
  assumes "queue_contents r = td # rest"
  shows "redis_blpop r ''task_queue'' =
           Inr (Some (''task_queue'', td),
                if rest = [] then r(''task_queue'' := None) else r(''task_queue'' \<mapsto> RList rest))"
  using assms
  by (cases "r ''task_queue''")
     (auto simp: redis_blpop_def queue_contents_def split: rvalue.splits)

text \<open>
  Claim C7, as amended. When the handler of a popped task raises an exception \<open>e\<close>, the
  consumer loop marks the task failed and stores \<open>str(e)\<close> as its error field: the field
  is the empty string exactly when the exception's text is empty.
\<close>

theorem failed_task_error_is_exception_text:
  assumes "queue_contents r = td # rest"
    and "handlers (task_type td) = Some h"
    and "r (task_key (task_id td)) = Some (RHash hsh)"
    and "h (payload td) w = (Inl e, w')"
  shows "hash_field (fst (snd (process_queue_iter handlers now (r, w)))) (task_key (task_id td))
            ''status'' = Some (HText ''failed'') \<and>
         hash_field (fst (snd (process_queue_iter handlers now (r, w)))) (task_key (task_id td))
            ''error'' = Some (HText (exc_str e)) \<and>
         (hash_field (fst (snd (process_queue_iter handlers now (r, w)))) (task_key (task_id td))
            ''error'' = Some (HText []) \<longleftrightarrow> exc_str e = [])"
  using assms blpop_head [OF assms(1)]
  by (simp add: process_queue_iter_def run_handler_def mark_in_progress_def mark_failed_def
      redis_hset_def hash_field_def task_key_not_queue)

theorem failed_task_error_witness:
  "hash_field (fst (snd (process_queue_iter
       [''research'' \<mapsto> (\<lambda>p w. (Inl (PyExc ''KeyError'' (py_repr ''content'')), w))] ''t2''
       ([''task_queue'' \<mapsto> RList [\<lparr>task_id = ''id1'', task_type = ''research'',
                                   payload = JStr ''q'', created_at = ''t1''\<rparr>],
         ''task:id1'' \<mapsto> RHash [''status'' \<mapsto> HText ''pending'']], ()))))
     (task_key ''id1'') ''error'' = Some (HText (CHR 0x27 # ''content'' @ [CHR 0x27]))"
  using failed_task_error_is_exception_text [of
      "[''task_queue'' \<mapsto> RList [\<lparr>task_id = ''id1'', task_type = ''research'',
                                   payload = JStr ''q'', created_at = ''t1''\<rparr>],
         ''task:id1'' \<mapsto> RHash [''status'' \<mapsto> HText ''pending'']]"
      "\<lparr>task_id = ''id1'', task_type = ''research'', payload = JStr ''q'', created_at = ''t1''\<rparr>"
      "[]"
      "[''research'' \<mapsto> (\<lambda>p w. (Inl (PyExc ''KeyError'' (py_repr ''content'')), w))]"
      "\<lambda>p w. (Inl (PyExc ''KeyError'' (py_repr ''content'')), w)"
      "[''status'' \<mapsto> HText ''pending'']"
      "()" "PyExc ''KeyError'' (py_repr ''content'')" "()" "''t2''"]
  by (simp add: queue_contents_def task_key_def py_repr_def)

text \<open>The claim as stated asks for a non-empty error text after every handler
  exception. A handler that raises \<open>ValueError()\<close> leaves the task failed with the empty
  string as its error.\<close>

theorem failed_task_empty_error:
  "hash_field (fst (snd (process_queue_iter
       [''research'' \<mapsto> (\<lambda>p w. (Inl (PyExc ''ValueError'' []), w))] ''t2''
       ([''task_queue'' \<mapsto> RList [\<lparr>task_id = ''id1'', task_type = ''research'',
                                   payload = JStr ''q'', created_at = ''t1''\<rparr>],
         ''task:id1'' \<mapsto> RHash [''status'' \<mapsto> HText ''pending'']], ()))))
     ''task:id1'' ''status'' = Some (HText ''failed'') \<and>
   hash_field (fst (snd (process_queue_iter
       [''research'' \<mapsto> (\<lambda>p w. (Inl (PyExc ''ValueError'' []), w))] ''t2''
       ([''task_queue'' \<mapsto> RList [\<lparr>task_id = ''id1'', task_type = ''research'',
                                   payload = JStr ''q'', created_at = ''t1''\<rparr>],
         ''task:id1'' \<mapsto> RHash [''status'' \<mapsto> HText ''pending'']], ()))))
     ''task:id1'' ''error'' = Some (HText [])"
  by (simp add: process_queue_iter_def run_handler_def mark_in_progress_def mark_failed_def
      redis_hset_def redis_blpop_def hash_field_def task_key_def)

text \<open>
  The three status writes, on a task's status hash: the write to in-progress changes the
  status field and nothing else; the write to completed sets the status, the result and
  \<open>completed_at\<close>; the write to failed sets the status, the error and \<open>failed_at\<close>.
  Every other field of the hash, and every other key of the server, is left as it was.
\<close>

lemma transition_writes:
  assumes "r k = Some (RHash hsh)"
  shows "mark_in_progress r k =
           Inr (r(k \<mapsto> RHash (hsh(''status'' \<mapsto> HText ''in_progress''))))"
    and "mark_completed r k res now =
           Inr (r(k \<mapsto> RHash (hsh(''status'' \<mapsto> HText ''completed'', ''result'' \<mapsto> HJson res,
                                   ''completed_at'' \<mapsto> HText now))))"
    and "mark_failed r k e now =
           Inr (r(k \<mapsto> RHash (hsh(''status'' \<mapsto> HText ''failed'',
                                   ''error'' \<mapsto> HText (exc_str e),
                                   ''failed_at'' \<mapsto> HText now))))"
  using assms
  by (simp_all add: mark_in_progress_def mark_completed_def mark_failed_def redis_hset_def)

lemma transitions_write_no_updated_at:
  assumes "r k = Some (RHash hsh)"
  shows "\<exists>r1 r2 r3.
     mark_in_progress r k = Inr r1 \<and>
     mark_completed r1 k res now = Inr r2 \<and>
     mark_failed r1 k e now = Inr r3 \<and>
     hash_field r1 k ''updated_at'' = hsh ''updated_at'' \<and>
     hash_field r2 k ''updated_at'' = hsh ''updated_at'' \<and>
     hash_field r3 k ''updated_at'' = hsh ''updated_at''"
  using assms
  by (simp add: mark_in_progress_def mark_completed_def mark_failed_def redis_hset_def
      hash_field_def)

text \<open>The status routine of models.py stamps \<open>updated_at\<close> at every status change.\<close>

lemma update_status_stamps_updated_at:
  "rt_updated_at (update_status t s err now now') = now \<and>
   rt_status (update_status t s err now now') = s"
  by (simp add: update_status_def Let_def split: option.splits)

text \<open>
  Claim C8. Every status transition the consumer loop performs is to advance the task's
  \<open>updated_at\<close>. Evaluated on a task as \<open>enqueue_task\<close> leaves it: after the iteration
  that takes it from pending through in-progress to completed, and after the one that
  takes it to failed, the task's hash has no \<open>updated_at\<close> field at all; the loop stamps
  \<open>completed_at\<close> or \<open>failed_at\<close> only. The same change made through
  \<open>ResearchTask.update_status\<close> stamps \<open>updated_at\<close>.
\<close>

theorem consumer_loop_never_stamps_updated_at:
  "hash_field (fst (snd (process_queue_iter
       [''research'' \<mapsto> (\<lambda>p w. (Inr (JArr []), w))] ''t2''
       ([''task_queue'' \<mapsto> RList [\<lparr>task_id = ''id1'', task_type = ''research'',
                                   payload = JStr ''q'', created_at = ''t1''\<rparr>],
         ''task:id1'' \<mapsto> RHash [''status'' \<mapsto> HText ''pending'',
               ''data'' \<mapsto> HTask \<lparr>task_id = ''id1'', task_type = ''research'',
                                   payload = JStr ''q'', created_at = ''t1''\<rparr>]], ()))))
     ''task:id1'' ''status'' = Some (HText ''completed'') \<and>
   hash_field (fst (snd (process_queue_iter
       [''research'' \<mapsto> (\<lambda>p w. (Inr (JArr []), w))] ''t2''
       ([''task_queue'' \<mapsto> RList [\<lparr>task_id = ''id1'', task_type = ''research'',
                                   payload = JStr ''q'', created_at = ''t1''\<rparr>],
         ''task:id1'' \<mapsto> RHash [''status'' \<mapsto> HText ''pending'',
               ''data'' \<mapsto> HTask \<lparr>task_id = ''id1'', task_type = ''research'',
                                   payload = JStr ''q'', created_at = ''t1''\<rparr>]], ()))))
     ''task:id1'' ''completed_at'' = Some (HText ''t2'') \<and>
   hash_field (fst (snd (process_queue_iter
       [''research'' \<mapsto> (\<lambda>p w. (Inr (JArr []), w))] ''t2''
       ([''task_queue'' \<mapsto> RList [\<lparr>task_id = ''id1'', task_type = ''research'',
                                   payload = JStr ''q'', created_at = ''t1''\<rparr>],
         ''task:id1'' \<mapsto> RHash [''status'' \<mapsto> HText ''pending'',
               ''data'' \<mapsto> HTask \<lparr>task_id = ''id1'', task_type = ''research'',
                                   payload = JStr ''q'', created_at = ''t1''\<rparr>]], ()))))
     ''task:id1'' ''updated_at'' = None \<and>
   hash_field (fst (snd (process_queue_iter
       [''research'' \<mapsto> (\<lambda>p w. (Inl (PyExc ''ValueError'' ''bad query''), w))] ''t2''
       ([''task_queue'' \<mapsto> RList [\<lparr>task_id = ''id1'', task_type = ''research'',
                                   payload = JStr ''q'', created_at = ''t1''\<rparr>],
         ''task:id1'' \<mapsto> RHash [''status'' \<mapsto> HText ''pending'',
               ''data'' \<mapsto> HTask \<lparr>task_id = ''id1'', task_type = ''research'',
                                   payload = JStr ''q'', created_at = ''t1''\<rparr>]], ()))))
     ''task:id1'' ''status'' = Some (HText ''failed'') \<and>
   hash_field (fst (snd (process_queue_iter
       [''research'' \<mapsto> (\<lambda>p w. (Inl (PyExc ''ValueError'' ''bad query''), w))] ''t2''
       ([''task_queue'' \<mapsto> RList [\<lparr>task_id = ''id1'', task_type = ''research'',
                                   payload = JStr ''q'', created_at = ''t1''\<rparr>],
         ''task:id1'' \<mapsto> RHash [''status'' \<mapsto> HText ''pending'',
               ''data'' \<mapsto> HTask \<lparr>task_id = ''id1'', task_type = ''research'',
                                   payload = JStr ''q'', created_at = ''t1''\<rparr>]], ()))))
     ''task:id1'' ''updated_at'' = None \<and>
   rt_updated_at (update_status
       \<lparr>rt_status = InProgress, rt_updated_at = ''t1'', rt_completed_at = None,
        rt_error = None, rt_progress = 0\<rparr> Completed None ''t2'' ''t2'') = ''t2''"
  by (simp add: process_queue_iter_def run_handler_def mark_in_progress_def mark_completed_def
      mark_failed_def redis_hset_def redis_blpop_def hash_field_def task_key_def
      update_status_def)

section \<open>The analyze stage sorts and truncates\<close>

lemma map_exc_length: "map_exc f xs = Inr ys \<Longrightarrow> length ys = length xs"
  by (induction xs arbitrary: ys) (auto split: sum.splits)

lemma first_raised_None:
  assumes "first_raised order outs = None"
  shows "\<forall>x \<in> set outs. \<not> isl x"
proof -
  from assms
  have "filter (\<lambda>i. i < length outs \<and> isl (outs ! i)) (order @ [0..<length outs]) = []"
    by (simp add: first_raised_def split: list.splits)
  then have "\<forall>i \<in> set [0..<length outs]. \<not> (i < length outs \<and> isl (outs ! i))"
    by (simp add: filter_empty_conv)
  then have "\<forall>i < length outs. \<not> isl (outs ! i)" by simp
  then show ?thesis by (auto simp: in_set_conv_nth)
qed

lemma gather_Inr:
  assumes "gather order outs = Inr vs"
  shows "outs = map Inr vs"
proof -
  from assms have n: "first_raised order outs = None" and vs: "vs = map projr outs"
    by (auto simp: gather_def split: option.splits)
  from first_raised_None [OF n] have "\<forall>x \<in> set outs. Inr (projr x) = x"
    by (auto simp: sum.collapse(2))
  then have "map (\<lambda>x. Inr (projr x)) outs = outs"
    by (simp add: map_idI)
  with vs show ?thesis by (simp add: comp_def)
qed

lemma gather_raises:
  assumes "outs \<noteq> []" and "\<forall>x \<in> set outs. isl x"
  shows "\<exists>e. gather order outs = Inl e"
proof -
  from assms have "0 < length outs \<and> isl (outs ! 0)"
    by (cases outs) auto
  then have "0 \<in> set (filter (\<lambda>i. i < length outs \<and> isl (outs ! i))
                       (order @ [0..<length outs]))"
    by simp
  then have "filter (\<lambda>i. i < length outs \<and> isl (outs ! i)) (order @ [0..<length outs]) \<noteq> []"
    by (metis empty_iff empty_set)
  then show ?thesis
    by (auto simp: gather_def first_raised_def split: list.splits)
qed

lemma mset_py_sorted_reverse: "mset (py_sorted_reverse key xs) = mset xs"
  by (simp add: py_sorted_reverse_def)

lemma py_sorted_reverse_descending:
  "sorted_wrt (\<lambda>x y. key y \<le> key x) (py_sorted_reverse key xs)"
proof -
  have "sorted (map key (sort_key key (rev xs)))" by simp
  then have "sorted_wrt (\<lambda>x y. key x \<le> key y) (sort_key key (rev xs))"
    by (simp add: sorted_map)
  then show ?thesis
    by (simp add: py_sorted_reverse_def sorted_wrt_rev)
qed

lemma py_sorted_reverse_stable:
  "filter (\<lambda>x. key x = k) (py_sorted_reverse key xs) = filter (\<lambda>x. key x = k) xs"
proof -
  have "filter (\<lambda>x. key x = k) (sort_key key (rev xs)) = filter (\<lambda>x. key x = k) (rev xs)"
    by (rule sort_key_stable)
  then show ?thesis
    by (simp add: py_sorted_reverse_def rev_filter [symmetric])
qed

lemma analyzed_result_score:
  "analyzed_result (res, a) = Inr x \<Longrightarrow> relevance_score x = relevance a"
  by (auto simp: analyzed_result_def relevance_score_def split: sum.splits json.splits)

lemma map_exc_analyzed_scores:
  "map_exc analyzed_result (zip results analyses) = Inr scored \<Longrightarrow>
     map relevance_score scored = map relevance (take (length results) analyses)"
proof (induction results arbitrary: analyses scored)
  case Nil
  then show ?case by simp
next
  case (Cons res results)
  show ?case
  proof (cases analyses)
    case Nil
    with Cons.prems show ?thesis by simp
  next
    case (Cons a as)
    with Cons.prems Cons.IH [of as] show ?thesis
      by (auto split: sum.splits dest: analyzed_result_score)
  qed
qed

text \<open>
  Claim C5. In the analyze stage, for every list of fetched items and every analyzer, a
  stage that returns has read the content of each item, scored it with the analyzer's
  relevance, and returns the scored items sorted by descending \<open>relevance_score\<close> (a
  permutation of them, in descending order, with the items of any one score in their
  input order), cut to the first \<open>max_results\<close>; its length is the smaller of the number
  of items and \<open>max_results\<close>. \<open>max_results\<close> is at least 1 in a validated query.
\<close>

theorem analyze_stage_sorted_truncated:
  assumes "1 \<le> m" and "analyze_stage analyze order m results = Inr rs"
  shows "\<exists>contents analyses scored.
           map_exc (\<lambda>res. py_getitem res ''content'') results = Inr contents \<and>
           map analyze contents = map Inr analyses \<and>
           length analyses = length results \<and>
           map_exc analyzed_result (zip results analyses) = Inr scored \<and>
           map relevance_score scored = map relevance analyses \<and>
           rs = take (nat m) (py_sorted_reverse relevance_score scored) \<and>
           mset (py_sorted_reverse relevance_score scored) = mset scored \<and>
           sorted_wrt (\<lambda>x y. relevance_score y \<le> relevance_score x)
             (py_sorted_reverse relevance_score scored) \<and>
           (\<forall>k. filter (\<lambda>x. relevance_score x = k) (py_sorted_reverse relevance_score scored) =
                filter (\<lambda>x. relevance_score x = k) scored) \<and>
           length rs = min (length results) (nat m)"
proof -
  from assms(2) obtain contents analyses scored where
    c: "map_exc (\<lambda>res. py_getitem res ''content'') results = Inr contents" and
    a: "gather order (map analyze contents) = Inr analyses" and
    s: "map_exc analyzed_result (zip results analyses) = Inr scored" and
    rs: "rs = py_slice_to (py_sorted_reverse relevance_score scored) m"
    by (auto simp: analyze_stage_def split: sum.splits)
  from gather_Inr [OF a] have an: "map analyze contents = map Inr analyses" .
  then have "length contents = length analyses"
    by (metis length_map)
  with map_exc_length [OF c]
  have la: "length analyses = length results" by simp
  from map_exc_length [OF s] la have ls: "length scored = length results" by simp
  from map_exc_analyzed_scores [OF s] la
  have sc: "map relevance_score scored = map relevance analyses" by simp
  from assms(1) rs have rs': "rs = take (nat m) (py_sorted_reverse relevance_score scored)"
    by (simp add: py_slice_to_def)
  have "length (py_sorted_reverse relevance_score scored) = length scored"
    by (simp add: py_sorted_reverse_def)
  with rs' ls have len: "length rs = min (length results) (nat m)" by simp
  from c an la s sc rs' len show ?thesis
    using mset_py_sorted_reverse [of relevance_score scored]
      py_sorted_reverse_descending [of relevance_score scored]
      py_sorted_reverse_stable [of relevance_score _ scored]
    by blast
qed

theorem analyze_stage_witness:
  "\<exists>rs. analyze_stage (\<lambda>c. Inr (AnalyzeTool_run c)) [2, 0] 3
           [JObj [(''source'', JStr ''web''), (''content'', JStr ''aa''), (''metadata'', JObj [])],
            JObj [(''source'', JStr ''news''), (''content'', JStr ''bbbbbbbbb''), (''metadata'', JObj [])],
            JObj [(''source'', JStr ''web''), (''content'', JStr ''ccccccccc''), (''metadata'', JObj [])],
            JObj [(''source'', JStr ''web''), (''content'', JStr ''d''), (''metadata'', JObj [])]]
          = Inr rs \<and>
        map (\<lambda>x. py_getitem x ''content'') rs =
          [Inr (JStr ''bbbbbbbbb''), Inr (JStr ''ccccccccc''), Inr (JStr ''aa'')] \<and>
        map relevance_score rs = [9 / 1000, 9 / 1000, 2 / 1000] \<and>
        length rs = min 4 (nat 3)"
proof -
  obtain rs where e: "analyze_stage (\<lambda>c. Inr (AnalyzeTool_run c)) [2, 0] 3
           [JObj [(''source'', JStr ''web''), (''content'', JStr ''aa''), (''metadata'', JObj [])],
            JObj [(''source'', JStr ''news''), (''content'', JStr ''bbbbbbbbb''), (''metadata'', JObj [])],
            JObj [(''source'', JStr ''web''), (''content'', JStr ''ccccccccc''), (''metadata'', JObj [])],
            JObj [(''source'', JStr ''web''), (''content'', JStr ''d''), (''metadata'', JObj [])]]
          = Inr rs"
    and c: "map (\<lambda>x. py_getitem x ''content'') rs =
          [Inr (JStr ''bbbbbbbbb''), Inr (JStr ''ccccccccc''), Inr (JStr ''aa'')]"
    and r: "map relevance_score rs = [9 / 1000, 9 / 1000, 2 / 1000]"
    by (simp add: analyze_stage_def AnalyzeTool_run_def calculate_relevance_def
        analyzed_result_def analysis_json_def py_slice_to_def py_sorted_reverse_def
        relevance_score_def gather_def first_raised_def)
  have "(1::int) \<le> 3" by simp
  from analyze_stage_sorted_truncated [OF this e] have "length rs = min 4 (nat 3)"
    by auto
  with e c r show ?thesis by (intro exI [of _ rs]) simp
qed

section \<open>The orchestrator's stage sequence\<close>

lemma select_action_name:
  "name (select_action st) =
     (if \<not> state_get st ''searched'' then ''search''
      else if \<not> state_get st ''analyzed'' then ''analyze'' else ''summarize'')"
  by (simp add: select_action_def Action_def)

lemma research_loop_done:
  "research_loop ResearchPolicyObj run_all analyze so ao rq
       [''searched'' \<mapsto> True, ''analyzed'' \<mapsto> True] results tool steps
     = (Inr results, tool, steps)"
  by (subst research_loop.simps)
     (simp add: policy_select_action_def select_action_name state_get_def)

lemma research_loop_analyze:
  "research_loop ResearchPolicyObj run_all analyze so ao rq
       [''searched'' \<mapsto> True, ''analyzed'' \<mapsto> False] results tool steps
     = (case analyze_stage analyze ao (max_results rq) results of
          Inl e \<Rightarrow> (Inl e, tool, steps @ [''analyze''])
        | Inr rs \<Rightarrow> (Inr rs, tool, steps @ [''analyze'']))"
proof -
  have upd: "[''searched'' \<mapsto> True, ''analyzed'' \<mapsto> False](''analyzed'' \<mapsto> True)
      = [''searched'' \<mapsto> True, ''analyzed'' \<mapsto> True]"
    by simp
  show ?thesis
    by (subst research_loop.simps)
       (simp add: policy_select_action_def select_action_name state_get_def upd
          research_loop_done split: sum.splits)
qed

lemma research_loop_search:
  "research_loop ResearchPolicyObj run_all analyze so ao rq
       [''searched'' \<mapsto> False, ''analyzed'' \<mapsto> False] results tool steps
     = (case gather_search run_all so tool (query rq) (sources rq) of
          (Inl e, tool') \<Rightarrow> (Inl e, tool', steps @ [''search''])
        | (Inr search_results, tool') \<Rightarrow>
            (case flatten search_results of
               Inl e \<Rightarrow> (Inl e, tool', steps @ [''search''])
             | Inr items \<Rightarrow>
                 (case analyze_stage analyze ao (max_results rq) (results @ items) of
                    Inl e \<Rightarrow> (Inl e, tool', steps @ [''search'', ''analyze''])
                  | Inr rs \<Rightarrow> (Inr rs, tool', steps @ [''search'', ''analyze'']))))"
proof -
  have upd: "[''searched'' \<mapsto> False, ''analyzed'' \<mapsto> False](''searched'' \<mapsto> True)
      = [''searched'' \<mapsto> True, ''analyzed'' \<mapsto> False]"
    by (rule ext) simp
  show ?thesis
    by (subst research_loop.simps)
       (simp add: policy_select_action_def select_action_name state_get_def upd
          research_loop_analyze split: sum.splits prod.splits)
qed

text \<open>
  What the loop does when the policy attribute is a \<open>ResearchPolicy\<close>: one search step;
  if that step raises, the run ends there with the exception; otherwise one analyze step
  on the fetched items, and the run ends, with the exception if the analyze step raises
  and with the sorted results if not. No step is entered twice.
\<close>

lemma research_policy_runs_search_then_analyze:
  assumes "valid_query rq"
  shows "execute_research ResearchPolicyObj run_all analyze so ao tool rq =
           (case gather_search run_all so tool (query rq) (sources rq) of
              (Inl e, tool') \<Rightarrow> (Inl e, tool', [''search''])
            | (Inr search_results, tool') \<Rightarrow>
                (case flatten search_results of
                   Inl e \<Rightarrow> (Inl e, tool', [''search''])
                 | Inr items \<Rightarrow>
                     (case analyze_stage analyze ao (max_results rq) items of
                        Inl e \<Rightarrow> (Inl e, tool', [''search'', ''analyze''])
                      | Inr rs \<Rightarrow> (Inr rs, tool', [''search'', ''analyze'']))))"
  using assms
  by (simp add: execute_research_def ResearchQuery_init_def
      research_loop_search split: prod.splits sum.splits)

lemma research_policy_example:
  "snd (snd (execute_research ResearchPolicyObj
       (\<lambda>t q srcs. (map (\<lambda>s. Inr (JArr [JObj [(''source'', JStr ''web''),
                       (''content'', JStr q), (''metadata'', JObj [])]])) srcs, t))
       (\<lambda>c. Inr (AnalyzeTool_run c)) [] [] ()
       \<lparr>query = ''quantum computing'', sources = [ACADEMIC, NEWS], max_results = 2\<rparr>))
     = [''search'', ''analyze''] \<and>
   map relevance_score (projr (fst (execute_research ResearchPolicyObj
       (\<lambda>t q srcs. (map (\<lambda>s. Inr (JArr [JObj [(''source'', JStr ''web''),
                       (''content'', JStr q), (''metadata'', JObj [])]])) srcs, t))
       (\<lambda>c. Inr (AnalyzeTool_run c)) [] [] ()
       \<lparr>query = ''quantum computing'', sources = [ACADEMIC, NEWS], max_results = 2\<rparr>)))
     = [17 / 1000, 17 / 1000]"
proof -
  have v: "valid_query \<lparr>query = ''quantum computing'', sources = [ACADEMIC, NEWS],
      max_results = 2\<rparr>"
    by (simp add: valid_query_def)
  show ?thesis
    by (simp add: research_policy_runs_search_then_analyze [OF v] gather_search_def
        gather_def first_raised_def flatten_def py_iter_def analyze_stage_def
        AnalyzeTool_run_def calculate_relevance_def analyzed_result_def analysis_json_def
        py_slice_to_def py_sorted_reverse_def relevance_score_def)
qed

text \<open>A search step that raises ends the run: the exception is logged and raised again
  (lines 59 to 64).\<close>

lemma research_policy_search_failure:
  "execute_research ResearchPolicyObj
       (\<lambda>t q srcs. (map (\<lambda>s. Inl (PyExc ''ConnectionError''
                                      ''Error connecting to localhost:6379'')) srcs, t))
       (\<lambda>c. Inr (AnalyzeTool_run c)) [] [] ()
       \<lparr>query = ''quantum computing'', sources = [ACADEMIC, NEWS], max_results = 2\<rparr>
     = (Inl (PyExc ''ConnectionError'' ''Error connecting to localhost:6379''), (),
        [''search''])"
  by (simp add: execute_research_def ResearchQuery_init_def valid_query_def
      research_loop_search gather_search_def gather_def first_raised_def)

text \<open>With the policy attribute as \<open>ResearchAgent.__init__\<close> binds it, the first
  \<open>select_action\<close> call raises AttributeError: for every valid payload, whatever the
  tools, no step runs.\<close>

lemma execute_research_as_constructed:
  "valid_query rq \<Longrightarrow>
     execute_research ResearchAgent_policy run_all analyze so ao tool rq =
       (Inl no_select_action, tool, [])"
  by (simp add: execute_research_def ResearchQuery_init_def ResearchAgent_policy_def)
     (subst research_loop.simps, simp add: policy_select_action_def)

text \<open>
  Claim C9. \<open>select_action\<close> is the function of the two flags the claim describes
  (\<open>select_action_name\<close>), and for every valid payload the orchestrator is to run one
  search step, then one analyze step, then stop. Evaluated on the agent as
  \<open>ResearchAgent.__init__\<close> builds it (the policy attribute a \<open>ResearchQuery\<close>, a search
  tool without providers, the analyze tool) with a valid payload: the run ends on the
  AttributeError of the first \<open>select_action\<close> call, with no step entered.
\<close>

theorem constructed_agent_runs_no_step:
  "valid_query \<lparr>query = ''quantum computing'', sources = [ACADEMIC, NEWS], max_results = 2\<rparr> \<and>
   name (select_action [''searched'' \<mapsto> False, ''analyzed'' \<mapsto> False]) = ''search'' \<and>
   execute_research ResearchAgent_policy SearchTool_run_all (\<lambda>c. Inr (AnalyzeTool_run c))
       [] [] ([], SearchTool_init 0 Map.empty)
       \<lparr>query = ''quantum computing'', sources = [ACADEMIC, NEWS], max_results = 2\<rparr>
     = (Inl (PyExc ''AttributeError''
               (CHR 0x27 # ''ResearchQuery'' @ [CHR 0x27] @ '' object has no attribute '' @
                CHR 0x27 # ''select_action'' @ [CHR 0x27])),
        ([], SearchTool_init 0 Map.empty), [])"
proof -
  have v: "valid_query \<lparr>query = ''quantum computing'', sources = [ACADEMIC, NEWS],
      max_results = 2\<rparr>"
    by (simp add: valid_query_def)
  have "research_loop ResearchAgent_policy SearchTool_run_all (\<lambda>c. Inr (AnalyzeTool_run c))
       [] [] \<lparr>query = ''quantum computing'', sources = [ACADEMIC, NEWS], max_results = 2\<rparr>
       [''searched'' \<mapsto> False, ''analyzed'' \<mapsto> False] [] ([], SearchTool_init 0 Map.empty) []
     = (Inl no_select_action, ([], SearchTool_init 0 Map.empty), [])"
    by (subst research_loop.simps)
       (simp add: policy_select_action_def ResearchAgent_policy_def)
  with v show ?thesis
    by (simp add: execute_research_def ResearchQuery_init_def select_action_name
        state_get_def no_select_action_def py_repr_def)
qed

section \<open>The search tool\<close>

text \<open>Awaiting a new coroutine of \<open>run\<close> raises the TypeError of \<open>json.loads\<close> on the
  coroutine object, whatever the tool and the server hold, and changes nothing.\<close>

lemma run_body_raises:
  "run_body tool q =
     (Inl (PyExc ''TypeError''
             ''the JSON object must be str, bytes or bytearray, not coroutine''), tool)"
  by (simp add: run_body_def redis_get_call_def py_truthy_def json_loads_def)

text \<open>Every \<open>await tool.run(q, src)\<close> raises: that TypeError, or RuntimeError when
  \<open>lru_cache\<close> hands back a coroutine that was awaited before.\<close>

lemma SearchTool_run_raises:
  "fst (SearchTool_run (cache, tool) q src) =
     Inl (if (tool_id tool, q, src) \<in> set cache then coroutine_reuse
          else PyExc ''TypeError''
                 ''the JSON object must be str, bytes or bytearray, not coroutine'')"
  by (simp add: SearchTool_run_def cached_call_def run_body_raises)

text \<open>The cache is one for all tools: the keys of two tool objects sit in the same
  list, and count against the same 100 entries.\<close>

lemma one_cache_for_all_tools:
  "fst (snd (SearchTool_run
       (fst (snd (SearchTool_run ([], SearchTool_init 0 Map.empty) ''quantum computing'' WEB)),
        SearchTool_init 1 Map.empty)
       ''quantum computing'' WEB))
     = [(1, ''quantum computing'', WEB), (0, ''quantum computing'', WEB)]"
  by (simp add: SearchTool_run_def SearchTool_init_def cached_call_def run_body_raises)

text \<open>The provider loop by itself skips a provider that raises, or that returns \<open>None\<close>,
  and keeps what the others returned, in registration order.\<close>

lemma search_providers_tolerant:
  "search_providers ps q acc =
     acc @ concat (map (\<lambda>p. case p q 5 of Inr (Some xs) \<Rightarrow> xs | _ \<Rightarrow> []) ps)"
  by (induction ps arbitrary: acc) (auto split: sum.splits option.splits)

lemma run_uncached_result:
  "fst (run_uncached tool q) =
     JArr (take 5 (concat (map (\<lambda>p. case p q 5 of Inr (Some xs) \<Rightarrow> xs | _ \<Rightarrow> [])
                            (map snd (providers tool)))))"
  by (simp add: run_uncached_def search_providers_tolerant Let_def)

text \<open>
  Claim C1. A second \<open>run\<close> call with the same query, inside the time-to-live of the
  cached entry, is to call no provider and to return the list the first call returned,
  whatever the source arguments. Evaluated with the query's entry present in the cache
  of the server and an empty \<open>lru_cache\<close>: the first call raises TypeError; a second call
  with the same source raises RuntimeError; a second call with another source raises
  TypeError again. No call returns a list.
\<close>

theorem cached_query_run_raises:
  "fst (SearchTool_run
         ([], \<lparr>tool_id = 0, providers = [(''google'', \<lambda>q n. Inr (Some [JStr ''fresh'']))],
               tool_redis = [''search:quantum computing'' \<mapsto> RString (JArr [JStr ''cached''])]\<rparr>)
         ''quantum computing'' WEB)
     = Inl (PyExc ''TypeError''
              ''the JSON object must be str, bytes or bytearray, not coroutine'') \<and>
   fst (SearchTool_run
         (snd (SearchTool_run
           ([], \<lparr>tool_id = 0, providers = [(''google'', \<lambda>q n. Inr (Some [JStr ''fresh'']))],
                 tool_redis = [''search:quantum computing'' \<mapsto> RString (JArr [JStr ''cached''])]\<rparr>)
           ''quantum computing'' WEB))
         ''quantum computing'' WEB)
     = Inl (PyExc ''RuntimeError'' ''cannot reuse already awaited coroutine'') \<and>
   fst (SearchTool_run
         (snd (SearchTool_run
           ([], \<lparr>tool_id = 0, providers = [(''google'', \<lambda>q n. Inr (Some [JStr ''fresh'']))],
                 tool_redis = [''search:quantum computing'' \<mapsto> RString (JArr [JStr ''cached''])]\<rparr>)
           ''quantum computing'' WEB))
         ''quantum computing'' NEWS)
     = Inl (PyExc ''TypeError''
              ''the JSON object must be str, bytes or bytearray, not coroutine'')"
  by (simp add: SearchTool_run_def cached_call_def run_body_def redis_get_call_def
      py_truthy_def json_loads_def coroutine_reuse_def)

text \<open>
  Claim C6. On a cache miss with one provider raising, \<open>run\<close> is to return what the
  other providers returned (the first five items). Evaluated with three providers, the
  second raising, and an empty cache: the block after the cache test would return the items
  of the first and the third provider, but \<open>run\<close> raises TypeError before it reaches
  the block.
\<close>

theorem failing_provider_run_raises:
  "fst (run_uncached
         \<lparr>tool_id = 0,
          providers = [(''google'', \<lambda>q n. Inr (Some [JStr ''g1'', JStr ''g2''])),
                       (''duckduckgo'', \<lambda>q n. Inl (PyExc ''HTTPStatusError'' ''500'')),
                       (''serper'', \<lambda>q n. Inr (Some [JStr ''s1'']))],
          tool_redis = Map.empty\<rparr>
         ''quantum computing'')
     = JArr [JStr ''g1'', JStr ''g2'', JStr ''s1''] \<and>
   fst (SearchTool_run
         ([], \<lparr>tool_id = 0,
          providers = [(''google'', \<lambda>q n. Inr (Some [JStr ''g1'', JStr ''g2''])),
                       (''duckduckgo'', \<lambda>q n. Inl (PyExc ''HTTPStatusError'' ''500'')),
                       (''serper'', \<lambda>q n. Inr (Some [JStr ''s1'']))],
          tool_redis = Map.empty\<rparr>)
         ''quantum computing'' WEB)
     = Inl (PyExc ''TypeError''
              ''the JSON object must be str, bytes or bytearray, not coroutine'')"
  by (simp add: SearchTool_run_def cached_call_def run_body_def redis_get_call_def
      py_truthy_def json_loads_def run_uncached_def Let_def)

text \<open>The calls of one search step: every coroutine awaited raises, also one that two
  positions of the list share.\<close>

lemma search_calls_length:
  "length (fst (search_calls cache made ident q srcs)) = length srcs"
proof (induction srcs arbitrary: cache made)
  case Nil
  then show ?case by simp
next
  case (Cons src srcs)
  show ?case
  proof (cases "(ident, q, src) \<in> set cache")
    case True
    with Cons.IH [of "(ident, q, src) # remove1 (ident, q, src) cache" made]
    show ?thesis by (auto simp: cached_call_def split: prod.splits)
  next
    case False
    with Cons.IH [of "take 100 ((ident, q, src) # cache)" "(ident, q, src) # made"]
    show ?thesis by (auto simp: cached_call_def split: prod.splits)
  qed
qed

lemma await_all_length:
  "length (fst (await_all tool q cs outcomes)) = length cs"
  by (induction tool q cs outcomes rule: await_all.induct)
     (auto split: prod.splits option.splits)

lemma await_all_raises:
  "\<forall>p \<in> set outcomes. isl (snd p) \<Longrightarrow>
     \<forall>x \<in> set (fst (await_all tool q cs outcomes)). isl x"
proof (induction tool q cs outcomes rule: await_all.induct)
  case (1 tool q outcomes)
  then show ?case by simp
next
  case (2 tool q src cs outcomes)
  then show ?case by (auto split: prod.splits)
next
  case (3 tool q src cs outcomes)
  then show ?case by (auto simp: run_body_raises split: prod.splits)
next
  case (4 tool q src cs outcomes)
  show ?case
  proof (cases "map_of outcomes src")
    case None
    with 4 show ?thesis by (auto simp: run_body_raises split: prod.splits)
  next
    case (Some res)
    then have "(src, res) \<in> set outcomes" by (rule map_of_SomeD)
    with "4.prems" have "isl res" by auto
    with Some 4 show ?thesis by (auto split: prod.splits)
  qed
qed

lemma SearchTool_run_all_raises:
  "length (fst (SearchTool_run_all s q srcs)) = length srcs \<and>
   (\<forall>x \<in> set (fst (SearchTool_run_all s q srcs)). isl x)"
proof -
  obtain cache tool where s: "s = (cache, tool)" by (cases s)
  obtain cs cache' where c: "search_calls cache [] (tool_id tool) q srcs = (cs, cache')"
    by (cases "search_calls cache [] (tool_id tool) q srcs")
  from search_calls_length [of cache "[]" "tool_id tool" q srcs] c
  have l: "length cs = length srcs" by simp
  from await_all_raises [of "[]" tool q cs] await_all_length [of tool q cs "[]"] l s c
  show ?thesis
    by (auto simp: SearchTool_run_all_def split: prod.splits)
qed

lemma duplicate_source_shares_coroutine:
  "fst (SearchTool_run_all ([], SearchTool_init 0 Map.empty) ''quantum computing'' [WEB, WEB]) =
     [Inl (PyExc ''TypeError''
             ''the JSON object must be str, bytes or bytearray, not coroutine''),
      Inl (PyExc ''TypeError''
             ''the JSON object must be str, bytes or bytearray, not coroutine'')] \<and>
   fst (SearchTool_run_all ([(0, ''quantum computing'', WEB)], SearchTool_init 0 Map.empty)
         ''quantum computing'' [WEB, NEWS]) =
     [Inl coroutine_reuse,
      Inl (PyExc ''TypeError''
             ''the JSON object must be str, bytes or bytearray, not coroutine'')]"
  by (simp add: SearchTool_run_all_def SearchTool_init_def cached_call_def run_body_raises)

text \<open>So the orchestrator, given a \<open>ResearchPolicy\<close> and the search tool of
  tools.py, ends every valid run in the search step.\<close>

lemma execute_research_with_SearchTool:
  assumes "valid_query rq"
  shows "\<exists>e tool'. execute_research ResearchPolicyObj SearchTool_run_all analyze so ao tool rq =
           (Inl e, tool', [''search''])"
proof -
  from assms have ne: "sources rq \<noteq> []" by (simp add: valid_query_def)
  obtain outs tool' where r: "SearchTool_run_all tool (query rq) (sources rq) = (outs, tool')"
    by (cases "SearchTool_run_all tool (query rq) (sources rq)")
  from SearchTool_run_all_raises [of tool "query rq" "sources rq"] r ne
  have "outs \<noteq> []" and "\<forall>x \<in> set outs. isl x" by auto
  from gather_raises [OF this, of so] obtain e where "gather so outs = Inl e" by blast
  with assms r show ?thesis
    by (simp add: research_policy_runs_search_then_analyze gather_search_def)
qed

end
